theory Spec2Isabelle
  imports Main
begin

section \<open>Data model (app/models/user.py)\<close>

text \<open>
  Timestamps are seconds on the UTC clock (\<open>datetime.utcnow()\<close>); integers are Python's
  unbounded ints. The server-side \<open>created_at\<close>/\<open>updated_at\<close> columns are left out: no
  function of the service layer reads them.
\<close>

type_synonym datetime = int

datatype UserRole = ADMIN | USER | MODERATOR

record User =
  u_id :: int
  email :: string
  username :: string
  hashed_password :: string
  full_name :: "string option"
  role :: UserRole
  is_active :: bool
  is_verified :: bool

record RefreshToken =
  rt_id :: int
  rt_token :: string
  rt_expires_at :: datetime
  rt_revoked :: bool
  rt_user_id :: int
  rt_user_agent :: "string option"
  rt_ip_address :: "string option"

record VerificationToken =
  vt_id :: int
  vt_token :: string
  vt_expires_at :: datetime
  vt_user_id :: int

record PasswordResetToken =
  pr_id :: int
  pr_token :: string
  pr_expires_at :: datetime
  pr_user_id :: int

text \<open>
  The database session: one list of rows per table, in storage order. A query's
  \<open>.first()\<close> is the first row of the list that passes the filter; \<open>.all()\<close> is the
  filtered list.
\<close>

record Session =
  users :: "User list"
  refresh_tokens :: "RefreshToken list"
  verification_tokens :: "VerificationToken list"
  password_reset_tokens :: "PasswordResetToken list"

text \<open>The auto-increment primary key the database hands to a new row.\<close>

definition next_id :: "int list \<Rightarrow> int" where
  "next_id ids = fold max ids 0 + 1"

text \<open>
  \<open>raise HTTPException(status_code=..., detail=...)\<close>; the \<open>WWW-Authenticate\<close> header
  some of them carry is left out.
\<close>

datatype error = HTTPException int string

definition HTTP_400_BAD_REQUEST :: int where "HTTP_400_BAD_REQUEST = 400"
definition HTTP_401_UNAUTHORIZED :: int where "HTTP_401_UNAUTHORIZED = 401"

text \<open>Python's truth value of an \<open>Optional[str]\<close>: \<open>None\<close> and the empty string are false.\<close>

fun truthy :: "string option \<Rightarrow> bool" where
  "truthy None = False"
| "truthy (Some s) = (s \<noteq> [])"

section \<open>Python string operations used by the code\<close>

text \<open>
  Characters are the code points 0..255 (cookie and header values reach the handlers
  decoded as Latin-1). Whitespace and \<open>isupper\<close> are Python's on that range; \<open>lower\<close> folds
  the ASCII letters, and the code compares its result with ASCII words only.
\<close>

definition startswith :: "string \<Rightarrow> string \<Rightarrow> bool" where
  "startswith p s = (take (length p) s = p)"

text \<open>\<open>sub in s\<close>.\<close>

fun py_in :: "string \<Rightarrow> string \<Rightarrow> bool" where
  "py_in sub [] = (sub = [])"
| "py_in sub (c # cs) = (startswith sub (c # cs) \<or> py_in sub cs)"

text \<open>
  The characters \<open>str.strip()\<close> and \<open>str.split()\<close> remove: tab to carriage return, the
  separators U+001C to U+001F, the space, NEL (U+0085) and the no-break space (U+00A0).
\<close>

definition is_space :: "char \<Rightarrow> bool" where
  "is_space c = (c \<in> set [CHR '' '', CHR 0x09, CHR 0x0A, CHR 0x0B, CHR 0x0C, CHR 0x0D,
                            CHR 0x1C, CHR 0x1D, CHR 0x1E, CHR 0x1F, CHR 0x85, CHR 0xA0])"

definition strip_with :: "(char \<Rightarrow> bool) \<Rightarrow> string \<Rightarrow> string" where
  "strip_with P s = rev (dropWhile P (rev (dropWhile P s)))"

text \<open>\<open>s.strip()\<close> and \<open>s.strip(chars)\<close>.\<close>

definition strip :: "string \<Rightarrow> string" where
  "strip s = strip_with is_space s"

definition strip_chars :: "string \<Rightarrow> string \<Rightarrow> string" where
  "strip_chars chars s = strip_with (\<lambda>c. c \<in> set chars) s"

text \<open>
  \<open>s.split(sep)\<close> for a non-empty separator: \<open>cur\<close> holds the piece being read, reversed.
  Python raises ValueError on an empty separator; every separator of the code is a
  non-empty literal, and the model returns the whole string as one piece there.
\<close>

function split_from :: "string \<Rightarrow> string \<Rightarrow> string \<Rightarrow> string list" where
  "split_from sep cur [] = [rev cur]"
| "split_from sep cur (c # cs) =
     (if sep \<noteq> [] \<and> startswith sep (c # cs)
      then rev cur # split_from sep [] (drop (length sep) (c # cs))
      else split_from sep (c # cur) cs)"
  by pat_completeness auto
termination
  by (relation "measure (\<lambda>(sep, cur, s). length s)") auto

definition split :: "string \<Rightarrow> string \<Rightarrow> string list" where
  "split sep s = split_from sep [] s"

text \<open>\<open>s.split()\<close>: the maximal runs of non-whitespace characters.\<close>

fun split_ws_from :: "string \<Rightarrow> string \<Rightarrow> string list" where
  "split_ws_from cur [] = (if cur = [] then [] else [rev cur])"
| "split_ws_from cur (c # cs) =
     (if is_space c then (if cur = [] then [] else [rev cur]) @ split_ws_from [] cs
      else split_ws_from (c # cur) cs)"

definition split_ws :: "string \<Rightarrow> string list" where
  "split_ws s = split_ws_from [] s"

definition ascii_uppercase :: string where
  "ascii_uppercase = ''ABCDEFGHIJKLMNOPQRSTUVWXYZ''"

definition ascii_lowercase :: string where
  "ascii_lowercase = ''abcdefghijklmnopqrstuvwxyz''"

text \<open>The capital letters of Latin-1: U+00C0 to U+00DE without the sign U+00D7.\<close>

definition latin1_uppercase :: string where
  "latin1_uppercase =
     [CHR 0xC0, CHR 0xC1, CHR 0xC2, CHR 0xC3, CHR 0xC4, CHR 0xC5, CHR 0xC6, CHR 0xC7,
      CHR 0xC8, CHR 0xC9, CHR 0xCA, CHR 0xCB, CHR 0xCC, CHR 0xCD, CHR 0xCE, CHR 0xCF,
      CHR 0xD0, CHR 0xD1, CHR 0xD2, CHR 0xD3, CHR 0xD4, CHR 0xD5, CHR 0xD6,
      CHR 0xD8, CHR 0xD9, CHR 0xDA, CHR 0xDB, CHR 0xDC, CHR 0xDD, CHR 0xDE]"

text \<open>\<open>c.isupper()\<close> for one character.\<close>

definition is_upper_char :: "char \<Rightarrow> bool" where
  "is_upper_char c = (c \<in> set ascii_uppercase \<or> c \<in> set latin1_uppercase)"

definition lower_char :: "char \<Rightarrow> char" where
  "lower_char c =
     (case map_of (zip ascii_uppercase ascii_lowercase) c of Some l \<Rightarrow> l | None \<Rightarrow> c)"

text \<open>\<open>s.lower()\<close>.\<close>

definition lower :: "string \<Rightarrow> string" where
  "lower s = map lower_char s"

text \<open>\<open>str(n)\<close> for an int.\<close>

fun str_nat :: "nat \<Rightarrow> string" where
  "str_nat n =
     (if n < 10 then [''0123456789'' ! n]
      else str_nat (n div 10) @ [''0123456789'' ! (n mod 10)])"

declare str_nat.simps [simp del]

definition str_int :: "int \<Rightarrow> string" where
  "str_int i = (if i < 0 then CHR ''-'' # str_nat (nat (- i)) else str_nat (nat i))"

section \<open>Settings and external collaborators\<close>

datatype json = JNull | JBool bool | JNum int | JStr string

text \<open>python-jose: \<open>ExpiredSignatureError\<close> and \<open>JWTClaimsError\<close> are subclasses of \<open>JWTError\<close>.\<close>

datatype JWTError = JWTError | ExpiredSignatureError | JWTClaimsError

text \<open>
  What a handler takes from outside the repository during one request: the settings
  (app/core/config.py), the clock, the random draws (\<open>secrets.token_urlsafe(nbytes)\<close>,
  \<open>uuid.uuid4()\<close>) and the library functions it calls (passlib's \<open>pwd_context\<close>,
  python-jose's \<open>jwt\<close> under the configured key and algorithm, \<open>ipaddress.ip_address\<close>,
  the database's comparison of the integer \<open>id\<close> column with the token's subject).
\<close>

record World =
  ACCESS_TOKEN_EXPIRE_MINUTES :: int
  REFRESH_TOKEN_EXPIRE_DAYS :: int
  utcnow :: datetime
  token_urlsafe :: "nat \<Rightarrow> string"
  uuid4 :: string
  pwd_context_verify :: "string \<Rightarrow> string \<Rightarrow> bool"
  pwd_context_hash :: "string \<Rightarrow> string"
  jwt_encode :: "(string \<times> json) list \<Rightarrow> string"
  jwt_decode :: "string \<Rightarrow> JWTError + (string \<times> json) list"
  ip_address_valid :: "string \<Rightarrow> bool"
  sql_id_eq :: "int \<Rightarrow> json \<Rightarrow> bool"

text \<open>
  The part of a Starlette request the handlers read. The server is taken to supply the
  peer address (\<open>request.client\<close>).
\<close>

record Request =
  user_agent :: "string option"
  x_forwarded_for :: "string option"
  client_host :: string

text \<open>One \<open>response.set_cookie(...)\<close> call.\<close>

record Cookie =
  c_key :: string
  c_value :: string
  c_httponly :: bool
  c_secure :: bool
  c_samesite :: string
  c_max_age :: int
  c_path :: string

text \<open>The Token schema (app/schemas/user.py).\<close>

record Token =
  access_token :: string
  token_type :: string
  expires_in :: int

text \<open>\<open>dict.get(key)\<close> on a decoded JSON object: a missing key and a null value both give None.\<close>

definition dict_get :: "(string \<times> json) list \<Rightarrow> string \<Rightarrow> json option" where
  "dict_get d k = (case map_of d k of None \<Rightarrow> None | Some JNull \<Rightarrow> None | Some v \<Rightarrow> Some v)"

section \<open>Refresh-token store (app/services/user.py)\<close>

definition get_refresh_token :: "datetime \<Rightarrow> Session \<Rightarrow> string \<Rightarrow> RefreshToken option" where
  "get_refresh_token now db token =
     find (\<lambda>r. rt_token r = token \<and> rt_expires_at r > now \<and> rt_revoked r = False)
       (refresh_tokens db)"

text \<open>
  \<open>db_token.revoked = True; db.commit()\<close> writes the loaded row back by its primary key.
\<close>

definition mark_revoked :: "int list \<Rightarrow> RefreshToken list \<Rightarrow> RefreshToken list" where
  "mark_revoked ids rows =
     map (\<lambda>r. if rt_id r \<in> set ids then r\<lparr>rt_revoked := True\<rparr> else r) rows"

definition revoke_refresh_token :: "Session \<Rightarrow> string \<Rightarrow> bool \<times> Session" where
  "revoke_refresh_token db token =
     (case find (\<lambda>r. rt_token r = token) (refresh_tokens db) of
        None \<Rightarrow> (False, db)
      | Some db_token \<Rightarrow>
          (True, db\<lparr>refresh_tokens := mark_revoked [rt_id db_token] (refresh_tokens db)\<rparr>))"

definition revoke_all_user_refresh_tokens :: "Session \<Rightarrow> int \<Rightarrow> bool \<times> Session" where
  "revoke_all_user_refresh_tokens db user_id =
     (let db_tokens =
            filter (\<lambda>r. rt_user_id r = user_id \<and> rt_revoked r = False) (refresh_tokens db)
      in if db_tokens = [] then (False, db)
         else (True, db\<lparr>refresh_tokens :=
                 mark_revoked (map rt_id db_tokens) (refresh_tokens db)\<rparr>))"

section \<open>User and token services (app/services/user.py, app/services/email.py)\<close>

definition get_user_by_id :: "Session \<Rightarrow> int \<Rightarrow> User option" where
  "get_user_by_id db user_id = find (\<lambda>u. u_id u = user_id) (users db)"

definition get_user_by_email :: "Session \<Rightarrow> string \<Rightarrow> User option" where
  "get_user_by_email db e = find (\<lambda>u. email u = e) (users db)"

definition get_user_by_username :: "Session \<Rightarrow> string \<Rightarrow> User option" where
  "get_user_by_username db n = find (\<lambda>u. username u = n) (users db)"

text \<open>The UserCreate schema; \<open>confirm_password\<close> is checked by the schema's validator.\<close>

record UserCreate =
  uc_email :: string
  uc_username :: string
  uc_full_name :: "string option"
  uc_password :: string

definition create_user :: "World \<Rightarrow> Session \<Rightarrow> UserCreate \<Rightarrow> User \<times> Session" where
  "create_user w db user_create =
     (let db_user = \<lparr>u_id = next_id (map u_id (users db)),
                      email = uc_email user_create,
                      username = uc_username user_create,
                      hashed_password = pwd_context_hash w (uc_password user_create),
                      full_name = uc_full_name user_create,
                      role = USER,
                      is_active = True,
                      is_verified = False\<rparr>
      in (db_user, db\<lparr>users := users db @ [db_user]\<rparr>))"

definition authenticate_user :: "World \<Rightarrow> Session \<Rightarrow> string \<Rightarrow> string \<Rightarrow> User option" where
  "authenticate_user w db e password =
     (case get_user_by_email db e of
        None \<Rightarrow> None
      | Some user \<Rightarrow>
          if \<not> pwd_context_verify w password (hashed_password user) then None else Some user)"

definition create_verification_token :: "World \<Rightarrow> Session \<Rightarrow> User \<Rightarrow> string \<times> Session" where
  "create_verification_token w db user =
     (let token = token_urlsafe w 32;
          expires_at = utcnow w + 24 * 3600;
          db_token = \<lparr>vt_id = next_id (map vt_id (verification_tokens db)),
                       vt_token = token, vt_expires_at = expires_at, vt_user_id = u_id user\<rparr>
      in (token, db\<lparr>verification_tokens := verification_tokens db @ [db_token]\<rparr>))"

definition create_password_reset_token :: "World \<Rightarrow> Session \<Rightarrow> User \<Rightarrow> string \<times> Session" where
  "create_password_reset_token w db user =
     (let token = token_urlsafe w 32;
          expires_at = utcnow w + 1 * 3600;
          db_token = \<lparr>pr_id = next_id (map pr_id (password_reset_tokens db)),
                       pr_token = token, pr_expires_at = expires_at, pr_user_id = u_id user\<rparr>
      in (token, db\<lparr>password_reset_tokens := password_reset_tokens db @ [db_token]\<rparr>))"

text \<open>
  \<open>user.is_verified = True; db.delete(db_token); db.commit(); db.refresh(user)\<close>: the user
  row is written back and the token row deleted, both by primary key; the function
  returns the user as reloaded.
\<close>

definition verify_user_email :: "World \<Rightarrow> Session \<Rightarrow> string \<Rightarrow> User option \<times> Session" where
  "verify_user_email w db token =
     (case find (\<lambda>t. vt_token t = token \<and> vt_expires_at t > utcnow w) (verification_tokens db) of
        None \<Rightarrow> (None, db)
      | Some db_token \<Rightarrow>
          (case get_user_by_id db (vt_user_id db_token) of
             None \<Rightarrow> (None, db)
           | Some user \<Rightarrow>
               (Some (user\<lparr>is_verified := True\<rparr>),
                db\<lparr>users := map (\<lambda>u. if u_id u = u_id user then u\<lparr>is_verified := True\<rparr> else u)
                               (users db),
                   verification_tokens :=
                     filter (\<lambda>t. vt_id t \<noteq> vt_id db_token) (verification_tokens db)\<rparr>)))"

definition reset_user_password ::
  "World \<Rightarrow> Session \<Rightarrow> string \<Rightarrow> string \<Rightarrow> User option \<times> Session" where
  "reset_user_password w db token new_password =
     (case find (\<lambda>t. pr_token t = token \<and> pr_expires_at t > utcnow w)
             (password_reset_tokens db) of
        None \<Rightarrow> (None, db)
      | Some db_token \<Rightarrow>
          (case get_user_by_id db (pr_user_id db_token) of
             None \<Rightarrow> (None, db)
           | Some user \<Rightarrow>
               (let h = pwd_context_hash w new_password
                in (Some (user\<lparr>hashed_password := h\<rparr>),
                    db\<lparr>users := map (\<lambda>u. if u_id u = u_id user then u\<lparr>hashed_password := h\<rparr>
                                         else u) (users db),
                       password_reset_tokens :=
                         filter (\<lambda>t. pr_id t \<noteq> pr_id db_token) (password_reset_tokens db)\<rparr>))))"

section \<open>Token issuing and session resolution (app/core/security.py)\<close>

fun role_value :: "UserRole \<Rightarrow> string" where
  "role_value ADMIN = ''admin''"
| "role_value USER = ''user''"
| "role_value MODERATOR = ''moderator''"

text \<open>
  \<open>expires_delta\<close> is a number of seconds; a zero \<open>timedelta\<close> is false in Python, so it
  takes the default branch.
\<close>

definition create_access_token :: "World \<Rightarrow> int \<Rightarrow> string \<Rightarrow> int option \<Rightarrow> string" where
  "create_access_token w subject role_str expires_delta =
     (let expire = (case expires_delta of
                      None \<Rightarrow> utcnow w + ACCESS_TOKEN_EXPIRE_MINUTES w * 60
                    | Some d \<Rightarrow> if d \<noteq> 0 then utcnow w + d
                                else utcnow w + ACCESS_TOKEN_EXPIRE_MINUTES w * 60);
          jti = uuid4 w;
          to_encode = [(''exp'', JNum expire), (''sub'', JStr (str_int subject)),
                       (''role'', JStr role_str), (''jti'', JStr jti),
                       (''type'', JStr ''access'')]
      in jwt_encode w to_encode)"

text \<open>The new row takes the column default \<open>revoked = False\<close>.\<close>

definition create_refresh_token ::
  "World \<Rightarrow> Session \<Rightarrow> int \<Rightarrow> string option \<Rightarrow> string option \<Rightarrow> string \<times> Session" where
  "create_refresh_token w db user_id agent ip =
     (let token = token_urlsafe w 64;
          expires_at = utcnow w + REFRESH_TOKEN_EXPIRE_DAYS w * 86400;
          db_refresh_token = \<lparr>rt_id = next_id (map rt_id (refresh_tokens db)),
                               rt_token = token, rt_expires_at = expires_at,
                               rt_revoked = False, rt_user_id = user_id,
                               rt_user_agent = agent, rt_ip_address = ip\<rparr>
      in (token, db\<lparr>refresh_tokens := refresh_tokens db @ [db_refresh_token]\<rparr>))"

definition generate_csrf_token :: "World \<Rightarrow> string" where
  "generate_csrf_token w = token_urlsafe w 32"

text \<open>
  \<open>secrets.compare_digest\<close> on two str values: TypeError (None here) unless both are
  ASCII only, else whether they are equal.
\<close>

definition compare_digest :: "string \<Rightarrow> string \<Rightarrow> bool option" where
  "compare_digest a b =
     (if list_all (\<lambda>c. of_char c < (128::nat)) (a @ b) then Some (a = b) else None)"

definition verify_csrf_token :: "string \<Rightarrow> string \<Rightarrow> bool" where
  "verify_csrf_token csrf_token csrf_cookie =
     (if csrf_token = [] \<or> csrf_cookie = [] then False
      else (case compare_digest csrf_token csrf_cookie of
              Some b \<Rightarrow> b
            | None \<Rightarrow> False))"

text \<open>
  \<open>token\<close> is the bearer token of the Authorization header (\<open>oauth2_scheme\<close>); the body
  reads the \<open>access_token\<close> cookie only. Every \<open>JWTError\<close> of \<open>jwt.decode\<close> is caught;
  the HTTPExceptions raised inside the \<open>try\<close> pass through.
\<close>

definition get_current_user ::
  "World \<Rightarrow> Session \<Rightarrow> string option \<Rightarrow> string option \<Rightarrow> error + User" where
  "get_current_user w db token access_token_cookie =
     (if \<not> truthy access_token_cookie
      then Inl (HTTPException HTTP_401_UNAUTHORIZED ''Not authenticated'')
      else (case jwt_decode w (the access_token_cookie) of
              Inl e \<Rightarrow> Inl (HTTPException HTTP_401_UNAUTHORIZED ''Invalid token'')
            | Inr payload \<Rightarrow>
                if dict_get payload ''type'' \<noteq> Some (JStr ''access'')
                then Inl (HTTPException HTTP_401_UNAUTHORIZED ''Invalid token type'')
                else (case dict_get payload ''sub'' of
                        None \<Rightarrow> Inl (HTTPException HTTP_401_UNAUTHORIZED ''Invalid token'')
                      | Some user_id \<Rightarrow>
                          (case find (\<lambda>u. sql_id_eq w (u_id u) user_id) (users db) of
                             None \<Rightarrow> Inl (HTTPException HTTP_401_UNAUTHORIZED ''User not found'')
                           | Some user \<Rightarrow>
                               if \<not> is_active user
                               then Inl (HTTPException HTTP_401_UNAUTHORIZED ''Inactive user'')
                               else Inr user))))"

text \<open>
  The User model has no \<open>is_admin\<close> attribute, so \<open>hasattr(user, "is_admin")\<close> is false and
  the first test never returns; \<open>email\<close> is a column of the model.
\<close>

definition is_admin :: "User \<Rightarrow> bool" where
  "is_admin user = (if py_in ''admin'' (lower (email user)) then True else False)"

section \<open>Client address (app/core/rate_limiter.py)\<close>

definition get_client_ip :: "World \<Rightarrow> Request \<Rightarrow> string" where
  "get_client_ip w request =
     (case x_forwarded_for request of
        None \<Rightarrow> client_host request
      | Some forwarded_for \<Rightarrow>
          if forwarded_for = [] then client_host request
          else (let ip = strip (case split '','' forwarded_for of [] \<Rightarrow> [] | x # _ \<Rightarrow> x)
                in if ip_address_valid w ip then ip else client_host request))"

section \<open>Authentication endpoints (app/api/auth.py)\<close>

text \<open>
  A handler returns its result (\<open>Inl\<close> for the HTTPException it raises) and the session as
  it leaves it. \<open>set_cookie\<close> takes the arguments of \<open>response.set_cookie\<close> in the order
  the code writes them; the cookies of a response are listed in the order they are set.
\<close>

definition set_cookie ::
  "string \<Rightarrow> string \<Rightarrow> bool \<Rightarrow> bool \<Rightarrow> string \<Rightarrow> int \<Rightarrow> string \<Rightarrow> Cookie" where
  "set_cookie k v h sec same age p =
     \<lparr>c_key = k, c_value = v, c_httponly = h, c_secure = sec, c_samesite = same,
      c_max_age = age, c_path = p\<rparr>"

text \<open>
  \<open>send_verification_email\<close> stores a verification token and then renders and sends the
  mail; the handler swallows whatever the rendering or the SMTP relay raises, so the
  registration returns the user either way.
\<close>

definition register :: "World \<Rightarrow> Session \<Rightarrow> UserCreate \<Rightarrow> (error + User) \<times> Session" where
  "register w db user_create =
     (if get_user_by_email db (uc_email user_create) \<noteq> None
      then (Inl (HTTPException HTTP_400_BAD_REQUEST ''Email already registered''), db)
      else if get_user_by_username db (uc_username user_create) \<noteq> None
      then (Inl (HTTPException HTTP_400_BAD_REQUEST ''Username already taken''), db)
      else (case create_user w db user_create of
              (user, db1) \<Rightarrow> (Inr user, snd (create_verification_token w db1 user))))"

definition login ::
  "World \<Rightarrow> Session \<Rightarrow> Request \<Rightarrow> string \<Rightarrow> string \<Rightarrow> (error + Token \<times> Cookie list) \<times> Session"
  where
  "login w db request form_username form_password =
     (case authenticate_user w db form_username form_password of
        None \<Rightarrow> (Inl (HTTPException HTTP_401_UNAUTHORIZED ''Incorrect email or password''), db)
      | Some user \<Rightarrow>
          if \<not> is_active user
          then (Inl (HTTPException HTTP_401_UNAUTHORIZED ''Inactive user''), db)
          else (let access_token_expires = ACCESS_TOKEN_EXPIRE_MINUTES w * 60;
                    access = create_access_token w (u_id user) (role_value (role user))
                               (Some access_token_expires)
                in (case create_refresh_token w db (u_id user) (user_agent request)
                           (Some (get_client_ip w request)) of
                      (refresh, db1) \<Rightarrow>
                        (let csrf = generate_csrf_token w
                         in (Inr (\<lparr>access_token = access, token_type = ''bearer'',
                                   expires_in = ACCESS_TOKEN_EXPIRE_MINUTES w * 60\<rparr>,
                                  [set_cookie ''access_token'' access True True ''lax''
                                     (ACCESS_TOKEN_EXPIRE_MINUTES w * 60) ''/'',
                                   set_cookie ''refresh_token'' refresh True True ''lax''
                                     (REFRESH_TOKEN_EXPIRE_DAYS w * 24 * 60 * 60) ''/'',
                                   set_cookie ''csrf_token'' csrf False True ''lax''
                                     (ACCESS_TOKEN_EXPIRE_MINUTES w * 60) ''/'']),
                             db1)))))"

text \<open>
  The refresh handler writes nothing to the session. \<open>the\<close> is applied to a cookie only
  after the truth test has shown it present.
\<close>

definition refresh_token ::
  "World \<Rightarrow> Session \<Rightarrow> string option \<Rightarrow> string option \<Rightarrow> string option
     \<Rightarrow> error + Token \<times> Cookie list" where
  "refresh_token w db refresh_token_cookie csrf_token_cookie x_csrf_token =
     (if \<not> truthy refresh_token_cookie
      then Inl (HTTPException HTTP_401_UNAUTHORIZED ''Refresh token missing'')
      else if \<not> truthy csrf_token_cookie \<or> \<not> truthy x_csrf_token
      then Inl (HTTPException HTTP_401_UNAUTHORIZED ''CSRF token missing'')
      else if \<not> verify_csrf_token (the x_csrf_token) (the csrf_token_cookie)
      then Inl (HTTPException HTTP_401_UNAUTHORIZED ''Invalid CSRF token'')
      else (case get_refresh_token (utcnow w) db (the refresh_token_cookie) of
              None \<Rightarrow> Inl (HTTPException HTTP_401_UNAUTHORIZED ''Invalid or expired refresh token'')
            | Some db_refresh_token \<Rightarrow>
                (case find (\<lambda>u. u_id u = rt_user_id db_refresh_token) (users db) of
                   None \<Rightarrow> Inl (HTTPException HTTP_401_UNAUTHORIZED ''User not found or inactive'')
                 | Some user \<Rightarrow>
                     if \<not> is_active user
                     then Inl (HTTPException HTTP_401_UNAUTHORIZED ''User not found or inactive'')
                     else (let access_token_expires = ACCESS_TOKEN_EXPIRE_MINUTES w * 60;
                               access = create_access_token w (u_id user) (role_value (role user))
                                          (Some access_token_expires);
                               new_csrf_token = generate_csrf_token w
                           in Inr (\<lparr>access_token = access, token_type = ''bearer'',
                                    expires_in = ACCESS_TOKEN_EXPIRE_MINUTES w * 60\<rparr>,
                                   [set_cookie ''access_token'' access True True ''lax''
                                      (ACCESS_TOKEN_EXPIRE_MINUTES w * 60) ''/'',
                                    set_cookie ''csrf_token'' new_csrf_token False True ''lax''
                                      (ACCESS_TOKEN_EXPIRE_MINUTES w * 60) ''/''])))))"

text \<open>Logout returns its detail, the keys of the cookies it deletes, and the session.\<close>

definition logout :: "Session \<Rightarrow> string option \<Rightarrow> (string \<times> string list) \<times> Session" where
  "logout db refresh_token_cookie =
     (let db1 = (if truthy refresh_token_cookie
                 then snd (revoke_refresh_token db (the refresh_token_cookie)) else db)
      in ((''Successfully logged out'', [''access_token'', ''refresh_token'', ''csrf_token'']),
          db1))"

definition verify_email :: "World \<Rightarrow> Session \<Rightarrow> string \<Rightarrow> (error + string) \<times> Session" where
  "verify_email w db token =
     (case verify_user_email w db token of
        (None, db1) \<Rightarrow>
          (Inl (HTTPException HTTP_400_BAD_REQUEST ''Invalid or expired verification token''), db1)
      | (Some user, db1) \<Rightarrow> (Inr ''Email successfully verified'', db1))"

definition reset_password ::
  "World \<Rightarrow> Session \<Rightarrow> string \<Rightarrow> string \<Rightarrow> (error + string) \<times> Session" where
  "reset_password w db token new_password =
     (case reset_user_password w db token new_password of
        (None, db1) \<Rightarrow>
          (Inl (HTTPException HTTP_400_BAD_REQUEST ''Invalid or expired password reset token''),
           db1)
      | (Some user, db1) \<Rightarrow>
          (Inr ''Password successfully reset'',
           snd (revoke_all_user_refresh_tokens db1 (u_id user))))"

section \<open>Admin dashboard (app/api/endpoints/admin.py)\<close>

record Activity =
  a_type :: string
  a_user_id :: string
  a_user_email :: string
  a_timestamp :: datetime
  a_details :: string

record DashboardStats =
  total_users :: int
  active_users :: int
  total_pdfs :: int
  total_questions_generated :: int
  users_by_tier :: "(string \<times> int) list"
  recent_activity :: "Activity list"

text \<open>\<open>now\<close> is the local clock (\<open>datetime.now()\<close>), in seconds.\<close>

definition get_dashboard_stats :: "datetime \<Rightarrow> User \<Rightarrow> error + DashboardStats" where
  "get_dashboard_stats now current_user =
     (if \<not> is_admin current_user
      then Inl (HTTPException 403 ''Admin access required'')
      else Inr \<lparr>total_users = 156, active_users = 89, total_pdfs = 342,
                total_questions_generated = 2589,
                users_by_tier = [(''free'', 98), (''pro'', 45), (''enterprise'', 13)],
                recent_activity =
                  [\<lparr>a_type = ''pdf_upload'', a_user_id = ''user123'',
                    a_user_email = ''user@example.com'', a_timestamp = now - 2 * 3600,
                    a_details = ''uploaded physics_textbook.pdf''\<rparr>,
                   \<lparr>a_type = ''question_generation'', a_user_id = ''user456'',
                    a_user_email = ''another@example.com'', a_timestamp = now - 5 * 3600,
                    a_details = ''generated 10 questions''\<rparr>]\<rparr>)"

text \<open>The \<open>/admin/stats\<close> route: \<open>current_user\<close> is resolved by \<open>get_current_user\<close>.\<close>

definition admin_stats_route ::
  "World \<Rightarrow> datetime \<Rightarrow> Session \<Rightarrow> string option \<Rightarrow> string option \<Rightarrow> error + DashboardStats"
  where
  "admin_stats_route w now db token access_token_cookie =
     (case get_current_user w db token access_token_cookie of
        Inl e \<Rightarrow> Inl e
      | Inr current_user \<Rightarrow> get_dashboard_stats now current_user)"

section \<open>Question pipeline (app/api/endpoints/smart_AI_pdf.py)\<close>

record QuestionRequest =
  pdf_id :: string
  num_questions :: int
  question_types :: "string list"

record Question =
  question :: string
  answer :: string
  question_type :: string
  options :: "string list option"

record Subscription =
  plan_name :: string
  end_date :: datetime
  sub_is_active :: bool

text \<open>
  The collaborators of the pipeline: \<open>os.path.exists\<close>; \<open>FAISS.load_local\<close> followed by
  \<open>as_retriever\<close>, giving the retriever as the function from a query to the page contents
  of the documents it returns, or the text of the exception it raises; and the hosted
  model, \<open>client.text_generation\<close>, whose reply to its n-th call of the request is a text or
  the text of the exception it raises. The last two fields are the interpreter's \<open>str(e)\<close>
  of the UnboundLocalError for \<open>subject\<close> and of the ZeroDivisionError of \<open>//\<close>, whose wording
  depends on the Python version.
\<close>

record Collaborators =
  path_exists :: "string \<Rightarrow> bool"
  load_local :: "string \<Rightarrow> string + (string \<Rightarrow> string list)"
  text_generation :: "nat \<Rightarrow> string \<Rightarrow> string + string"
  unbound_subject_text :: string
  zero_division_text :: string

definition system_prompt :: string where
  "system_prompt =
     ''Create clear questions based on the provided text. Format exactly as instructed.''"

definition canned_multiple_choice :: string where
  "canned_multiple_choice =
     ''Question: What is the main topic discussed in this content?\<newline>'' @
     ''Options:\<newline>'' @
     ''A) The primary subject matter\<newline>'' @
     ''B) A secondary concept\<newline>'' @
     ''C) An unrelated topic\<newline>'' @
     ''D) A tangential reference\<newline>'' @
     ''Answer: A - The primary subject matter is the main focus of the text.''"

definition canned_descriptive :: string where
  "canned_descriptive =
     ''Question: Explain the key concept presented in this text.\<newline>'' @
     ''Answer: The text discusses important information related to the main topic. It'' @
     '' provides details, explanations, and examples to help understand the concept.''"

text \<open>
  \<open>generate_text\<close>: \<open>client_call\<close> is the hosted model at this call. Whatever it raises is
  caught and returned as an "Error: ..." text.
\<close>

definition generate_text :: "(string \<Rightarrow> string + string) \<Rightarrow> string \<Rightarrow> string" where
  "generate_text client_call prompt0 =
     (let prompt = (if length prompt0 > 800 then take 800 prompt0 else prompt0);
          full_prompt = system_prompt @ ''\<newline>\<newline>'' @ prompt
      in (case client_call full_prompt of
            Inl e \<Rightarrow> ''Error: Could not generate question. Details: '' @ e
          | Inr response \<Rightarrow>
              (let cleaned_response = strip response
               in if \<not> py_in ''Question:'' cleaned_response
                  then (if py_in ''multiple_choice'' prompt then canned_multiple_choice
                        else canned_descriptive)
                  else cleaned_response)))"

text \<open>Every return of \<open>check_question_generation_limits\<close> is True.\<close>

definition check_question_generation_limits :: "Subscription list \<Rightarrow> datetime \<Rightarrow> bool" where
  "check_question_generation_limits subscriptions now =
     (case find (\<lambda>sub. sub_is_active sub \<and> end_date sub > now) subscriptions of
        None \<Rightarrow> True
      | Some active_subscription \<Rightarrow>
          if lower (plan_name active_subscription) = ''free'' then True
          else if lower (plan_name active_subscription) = ''pro'' then True
          else True)"

definition query_topics :: "string list" where
  "query_topics =
     [''main concepts and principles'', ''key terms and definitions'',
      ''important facts and figures'', ''processes and methods'',
      ''theories and frameworks'', ''examples and case studies'',
      ''problems and solutions'', ''causes and effects'',
      ''advantages and disadvantages'', ''historical developments'',
      ''practical applications'', ''future implications'']"

text \<open>
  Gathering the pool of document chunks. A document is its \<open>page_content\<close>; the pair is
  (\<open>all_docs\<close>, \<open>used_contexts\<close>). The test is on the whole content, the signature stored
  is its first 100 characters.
\<close>

fun add_docs :: "string list \<Rightarrow> string list \<times> string set \<Rightarrow> string list \<times> string set" where
  "add_docs [] acc = acc"
| "add_docs (doc # docs) (all_docs, used_contexts) =
     add_docs docs
       (if doc \<notin> used_contexts then (all_docs @ [doc], insert (take 100 doc) used_contexts)
        else (all_docs, used_contexts))"

fun gather_more ::
  "(string \<Rightarrow> string list) \<Rightarrow> int \<Rightarrow> nat list \<Rightarrow> string list \<times> string set
     \<Rightarrow> string list \<times> string set" where
  "gather_more retriever n [] acc = acc"
| "gather_more retriever n (i # rest) acc =
     (let random_term = ''topic_'' @ str_int (int i);
          acc1 = add_docs (retriever random_term) acc
      in if int (length (fst acc1)) \<ge> n * 2 then acc1
         else gather_more retriever n rest acc1)"

definition gather_docs :: "(string \<Rightarrow> string list) \<Rightarrow> int \<Rightarrow> string list" where
  "gather_docs retriever n =
     (let acc = foldl (\<lambda>acc topic. add_docs (retriever topic) acc) ([], {}) (take 6 query_topics)
      in if int (length (fst acc)) < n * 2 then fst (gather_more retriever n [0..<10] acc)
         else fst acc)"

text \<open>Choosing the subject of a question from the words of the context.\<close>

definition punctuation :: string where
  "punctuation = ''.,():;!?''"

definition first_isupper :: "string \<Rightarrow> bool" where
  "first_isupper w = (case w of [] \<Rightarrow> False | c # _ \<Rightarrow> is_upper_char c)"

definition potential_subjects :: "string set \<Rightarrow> string list \<Rightarrow> string list" where
  "potential_subjects used_subjects words =
     map (strip_chars punctuation)
       (filter (\<lambda>w. length w > 3 \<and> first_isupper w
                     \<and> strip_chars punctuation w \<notin> used_subjects) words)"

fun key_phrases :: "string list \<Rightarrow> string list" where
  "key_phrases (a # b # rest) =
     (if length a > 2 \<and> first_isupper a \<and> length b > 2 \<and> first_isupper b
      then [strip_chars punctuation (a @ '' '' @ b)] else [])
     @ key_phrases (b # rest)"
| "key_phrases _ = []"

definition technical_terms :: "string list \<Rightarrow> string list" where
  "technical_terms words =
     map (strip_chars punctuation)
       (filter (\<lambda>w. length w > 5
                     \<and> lower w \<notin> set [''because'', ''therefore'', ''however'', ''although''])
          words)"

definition choose_subject :: "string set \<Rightarrow> nat \<Rightarrow> string \<Rightarrow> string" where
  "choose_subject used_subjects i context =
     (let words = split_ws context
      in (case key_phrases words of
            phrase # _ \<Rightarrow> phrase
          | [] \<Rightarrow>
              (case potential_subjects used_subjects words of
                 s # _ \<Rightarrow> s
               | [] \<Rightarrow>
                   (case technical_terms words of
                      t # _ \<Rightarrow> t
                    | [] \<Rightarrow> ''topic '' @ str_int (int i + 1)))))"

definition multiple_choice_prompts :: "string \<Rightarrow> string \<Rightarrow> string list" where
  "multiple_choice_prompts context subject =
     [''Based on this text: '' @ context @
        ''\<newline>\<newline>Create a multiple choice question about '' @ subject @
        '' using this format:\<newline>Question: (Ask about '' @ subject @
        '' and its significance, purpose, or function)\<newline>'' @
        ''Options:\<newline>'' @
        ''A) (correct answer)\<newline>'' @
        ''B) (plausible but incorrect answer)\<newline>'' @
        ''C) (plausible but incorrect answer)\<newline>'' @
        ''D) (plausible but incorrect answer)\<newline>'' @
        ''Answer: (letter) - (brief explanation based on the text)'',
      ''From the following content: '' @ context @
        ''\<newline>\<newline>'' @
        ''Generate a multiple choice question that tests understanding of '' @ subject @
        '' with this format:\<newline>Question: (Ask about how '' @ subject @
        '' works, relates to other concepts, or is applied)\<newline>'' @
        ''Options:\<newline>'' @
        ''A) (correct answer)\<newline>'' @
        ''B) (plausible but incorrect answer)\<newline>'' @
        ''C) (plausible but incorrect answer)\<newline>'' @
        ''D) (plausible but incorrect answer)\<newline>'' @
        ''Answer: (letter) - (brief explanation based on the text)'',
      ''Using this excerpt: '' @ context @
        ''\<newline>\<newline>Create a conceptual multiple choice question about '' @ subject @
        '' using this format:\<newline>'' @
        ''Question: (Ask about the characteristics, types, or components of '' @ subject @
        '')\<newline>'' @
        ''Options:\<newline>'' @
        ''A) (correct answer)\<newline>'' @
        ''B) (plausible but incorrect answer)\<newline>'' @
        ''C) (plausible but incorrect answer)\<newline>'' @
        ''D) (plausible but incorrect answer)\<newline>'' @
        ''Answer: (letter) - (brief explanation based on the text)'']"

definition descriptive_prompts :: "string \<Rightarrow> string \<Rightarrow> string list" where
  "descriptive_prompts context subject =
     [''Based on this text: '' @ context @
        ''\<newline>\<newline>Create a descriptive question about '' @ subject @
        '' using this format:\<newline>Question: (Ask about what '' @ subject @
        '' is and why it's important)\<newline>'' @
        ''Answer: (Detailed explanation with relevant information from the text)'',
      ''From the following content: '' @ context @
        ''\<newline>\<newline>Generate a descriptive question that explores '' @ subject @
        '' with this format:\<newline>Question: (Ask about how '' @ subject @
        '' works or is implemented)\<newline>'' @
        ''Answer: (Step-by-step explanation with examples from the text)'',
      ''Using this excerpt: '' @ context @
        ''\<newline>\<newline>Create an analytical descriptive question about '' @ subject @
        '' using this format:\<newline>'' @
        ''Question: (Ask about the impact, benefits, or challenges of '' @ subject @
        '')\<newline>Answer: (Analytical explanation with evidence from the text)'']"

text \<open>
  The body of the \<open>try\<close> after the model's reply: the parsed question, or None where the
  code raises, and \<open>used_questions\<close> as the attempt leaves it. \<open>piece n\<close> is \<open>[n]\<close> on the
  result of a split; wherever the code reads an index, the test before it has found the
  separator, so the index is in range.
\<close>

definition piece :: "nat \<Rightarrow> string list \<Rightarrow> string" where
  "piece n xs = (if n < length xs then xs ! n else [])"

definition parse_options :: "string \<Rightarrow> string list" where
  "parse_options options_text =
     map (\<lambda>opt. strip (drop 3 (strip opt)))
       (filter (\<lambda>opt. strip opt \<noteq> []
                       \<and> (startswith ''A)'' (strip opt) \<or> startswith ''B)'' (strip opt)
                          \<or> startswith ''C)'' (strip opt) \<or> startswith ''D)'' (strip opt)))
          (split ''\<newline>'' options_text))"

definition parse_question ::
  "string \<Rightarrow> string \<Rightarrow> string set \<Rightarrow> Question option \<times> string set" where
  "parse_question q_type result used_questions =
     (if py_in ''Error:'' result then (None, used_questions)
      else (let parts = split ''Question:'' result
            in if length parts < 2 then (None, used_questions)
               else (let question_text =
                           strip (piece 0 (split (if q_type = ''multiple_choice''
                                                  then ''Options:'' else ''Answer:'')
                                             (piece 1 parts)))
                     in if question_text \<in> used_questions then (None, used_questions)
                        else (let used1 = insert question_text used_questions
                              in if q_type = ''multiple_choice''
                                 then (if \<not> py_in ''Options:'' result \<or> \<not> py_in ''Answer:'' result
                                       then (None, used1)
                                       else (let options_text =
                                                   strip (piece 0 (split ''Answer:''
                                                     (piece 1 (split ''Options:'' result))));
                                                 opts = parse_options options_text
                                             in if length opts \<noteq> 4 then (None, used1)
                                                else (Some \<lparr>question = question_text,
                                                       answer = strip (piece 1
                                                         (split ''Answer:'' result)),
                                                       question_type = q_type,
                                                       options = Some opts\<rparr>, used1)))
                                 else (if \<not> py_in ''Answer:'' result then (None, used1)
                                       else (Some \<lparr>question = question_text,
                                              answer = strip (piece 1
                                                (split ''Answer:'' result)),
                                              question_type = q_type,
                                              options = None\<rparr>, used1))))))"

text \<open>The fallback templates: (question, answer, options).\<close>

definition multiple_choice_fallbacks :: "string \<Rightarrow> (string \<times> string \<times> string list) list" where
  "multiple_choice_fallbacks subject =
     [(''What is the primary role of '' @ subject @ '' described in the text?'',
       ''A - It serves as a fundamental concept central to the topic being discussed.'',
       [''It serves as a fundamental concept central to the topic being discussed'',
        ''It represents a minor detail with limited relevance'',
        ''It contradicts the main principles presented'',
        ''It is mentioned only as a historical reference'']),
      (''How does '' @ subject @ '' relate to the other concepts in the text?'',
       ''B - It works in conjunction with other elements to form a complete system.'',
       [''It operates independently of all other components'',
        ''It works in conjunction with other elements to form a complete system'',
        ''It replaces older concepts mentioned in the text'',
        ''It serves as a counterexample to the main theory'']),
      (''What characteristic of '' @ subject @ '' is emphasized in the content?'',
       ''C - Its practical applications in real-world scenarios.'',
       [''Its theoretical foundation and origins'',
        ''Its limitations and constraints'',
        ''Its practical applications in real-world scenarios'',
        ''Its historical development over time''])]"

definition descriptive_fallbacks :: "string \<Rightarrow> (string \<times> string) list" where
  "descriptive_fallbacks subject =
     [(''Explain the concept of '' @ subject @ '' as presented in the text.'',
       ''The text discusses '' @ subject @
       '' as an important element that contributes to understanding the main topic. It has'' @
       '' specific characteristics and functions that make it relevant in this context.''),
      (''What are the key aspects of '' @ subject @ '' mentioned in the content?'',
       ''According to the text, '' @ subject @
       '' encompasses several important aspects. These include its definition, purpose, and'' @
       '' application within the broader framework discussed in the document.''),
      (''How does '' @ subject @ '' function within the system described in the text?'',
       ''The text explains that '' @ subject @
       '' functions by interacting with other components in the system. This interaction'' @
       '' facilitates processes that are essential to the overall operation or concept being'' @
       '' discussed.'')]"

text \<open>
  The \<open>except\<close> branch of a slot: \<open>n\<close> is \<open>len(questions)\<close>. It returns the question it
  appends and \<open>used_questions\<close> as it leaves it.
\<close>

definition fallback_question ::
  "string \<Rightarrow> string \<Rightarrow> nat \<Rightarrow> nat \<Rightarrow> string set \<Rightarrow> Question \<times> string set" where
  "fallback_question q_type subject i n used_questions =
     (if q_type = ''multiple_choice''
      then (case multiple_choice_fallbacks subject ! ((i + n) mod 3) of
              (fb_question, fb_answer, fb_options) \<Rightarrow>
                (let question_text = (if fb_question \<in> used_questions
                                      then fb_question @ '' (expanded)'' else fb_question)
                 in (\<lparr>question = question_text, answer = fb_answer, question_type = q_type,
                      options = Some fb_options\<rparr>,
                     insert question_text used_questions)))
      else (case descriptive_fallbacks subject ! ((i + n) mod 3) of
              (fb_question, fb_answer) \<Rightarrow>
                (let question_text = (if fb_question \<in> used_questions
                                      then fb_question @ '' (in detail)'' else fb_question)
                 in (\<lparr>question = question_text, answer = fb_answer, question_type = q_type,
                      options = None\<rparr>,
                     insert question_text used_questions))))"

text \<open>The variables the two loops update; \<open>n_calls\<close> counts the calls of the hosted model.\<close>

record GenState =
  questions :: "Question list"
  used_subjects :: "string set"
  used_questions :: "string set"
  n_calls :: nat

text \<open>
  One pass of the inner loop. With an empty pool, \<open>% len(all_docs)\<close> raises
  ZeroDivisionError inside the \<open>try\<close>; its handler then reads \<open>subject\<close>, which no pass has
  bound, and the UnboundLocalError leaves the loops for the outer handler, which answers
  with HTTP 500. With a non-empty pool \<open>subject\<close> is bound before anything can raise.
\<close>

text \<open>The chunk a pass reads, cut to 350 characters, and the prompt it sends.\<close>

definition slot_context :: "string list \<Rightarrow> nat \<Rightarrow> GenState \<Rightarrow> string" where
  "slot_context all_docs i st =
     (let doc_index = (i + length (questions st)) mod length all_docs;
          doc = all_docs ! doc_index
      in take 350 doc)"

definition slot_prompt :: "string \<Rightarrow> string \<Rightarrow> string \<Rightarrow> nat \<Rightarrow> string" where
  "slot_prompt q_type context subject i =
     (if q_type = ''multiple_choice''
      then multiple_choice_prompts context subject ! (i mod 3)
      else descriptive_prompts context subject ! (i mod 3))"

definition generate_slot ::
  "Collaborators \<Rightarrow> string list \<Rightarrow> string \<Rightarrow> nat \<Rightarrow> GenState \<Rightarrow> error + GenState" where
  "generate_slot ext all_docs q_type i st =
     (if all_docs = []
      then Inl (HTTPException 500 (''Error generating questions: '' @ unbound_subject_text ext))
      else (let context = slot_context all_docs i st;
                subject = choose_subject (used_subjects st) i context;
                used_subjects1 = insert subject (used_subjects st);
                prompt = slot_prompt q_type context subject i;
                result = generate_text (text_generation ext (n_calls st)) prompt
            in (case parse_question q_type result (used_questions st) of
                  (Some q, used1) \<Rightarrow>
                    Inr \<lparr>questions = questions st @ [q], used_subjects = used_subjects1,
                         used_questions = used1, n_calls = n_calls st + 1\<rparr>
                | (None, used1) \<Rightarrow>
                    (case fallback_question q_type subject i (length (questions st)) used1 of
                       (q, used2) \<Rightarrow>
                         Inr \<lparr>questions = questions st @ [q], used_subjects = used_subjects1,
                              used_questions = used2, n_calls = n_calls st + 1\<rparr>))))"

text \<open>\<open>for i in range(num_questions)\<close>, over the list of the values of \<open>i\<close>.\<close>

fun slots_loop ::
  "Collaborators \<Rightarrow> string list \<Rightarrow> string \<Rightarrow> nat list \<Rightarrow> GenState \<Rightarrow> error + GenState" where
  "slots_loop ext all_docs q_type [] st = Inr st"
| "slots_loop ext all_docs q_type (i # rest) st =
     (case generate_slot ext all_docs q_type i st of
        Inl e \<Rightarrow> Inl e
      | Inr st1 \<Rightarrow> slots_loop ext all_docs q_type rest st1)"

text \<open>\<open>for q_type in request.question_types\<close>; \<open>range\<close> of a negative number is empty.\<close>

fun types_loop ::
  "Collaborators \<Rightarrow> string list \<Rightarrow> int \<Rightarrow> int \<Rightarrow> string list \<Rightarrow> GenState \<Rightarrow> error + GenState"
  where
  "types_loop ext all_docs questions_per_type remaining_questions [] st = Inr st"
| "types_loop ext all_docs questions_per_type remaining_questions (q_type # rest) st =
     (let n = questions_per_type + (if remaining_questions > 0 then 1 else 0);
          remaining1 = remaining_questions - (if remaining_questions > 0 then 1 else 0)
      in (case slots_loop ext all_docs q_type [0..<nat n] st of
            Inl e \<Rightarrow> Inl e
          | Inr st1 \<Rightarrow> types_loop ext all_docs questions_per_type remaining1 rest st1))"

text \<open>
  The handler. \<open>//\<close> and \<open>%\<close> are Python's floor division and modulus, as \<open>div\<close> and \<open>mod\<close>
  on \<open>int\<close> are for a positive divisor; with no question type the division raises
  ZeroDivisionError, which the outer handler turns into HTTP 500.
\<close>

definition generate_questions ::
  "Collaborators \<Rightarrow> datetime \<Rightarrow> Subscription list \<Rightarrow> QuestionRequest \<Rightarrow> error + Question list"
  where
  "generate_questions ext now subscriptions request =
     (if \<not> check_question_generation_limits subscriptions now
      then Inl (HTTPException 403 ''Monthly question generation limit reached'')
      else (let vectorstore_path = ''vectorstores/'' @ pdf_id request
            in if \<not> path_exists ext vectorstore_path
               then Inl (HTTPException 404 (''PDF with ID '' @ pdf_id request @ '' not found''))
               else (case load_local ext vectorstore_path of
                       Inl e \<Rightarrow> Inl (HTTPException 500 (''Error loading PDF data: '' @ e))
                     | Inr retriever \<Rightarrow>
                         if question_types request = []
                         then Inl (HTTPException 500
                                (''Error generating questions: '' @ zero_division_text ext))
                         else (let questions_per_type =
                                     num_questions request div int (length (question_types request));
                                   remaining_questions =
                                     num_questions request mod int (length (question_types request));
                                   all_docs = gather_docs retriever (num_questions request)
                               in (case types_loop ext all_docs questions_per_type
                                          remaining_questions (question_types request)
                                          \<lparr>questions = [], used_subjects = {},
                                           used_questions = {}, n_calls = 0\<rparr> of
                                     Inl e \<Rightarrow> Inl e
                                   | Inr st \<Rightarrow> Inr (questions st))))))"

section \<open>The session states of the specification\<close>

text \<open>
  The state machine the specification gives for session resolution,
  \<open>NoToken \<rightarrow> TokenPresent \<rightarrow> {Valid, Expired, Malformed, WrongType, UserMissing, UserInactive}\<close>,
  written from its words: a request has no token when the cookie is absent or empty; a
  present token is expired or malformed when decoding rejects it (a token without a
  subject is malformed too), of the wrong type when its type is not "access"; its subject
  is missing when no stored user has that id, inactive when the user's flag is off.
\<close>

datatype session_state =
  NoToken | Valid User | Expired | Malformed | WrongType | UserMissing | UserInactive

definition session_state :: "World \<Rightarrow> Session \<Rightarrow> string option \<Rightarrow> session_state" where
  "session_state w db access_token_cookie =
     (case access_token_cookie of
        None \<Rightarrow> NoToken
      | Some tok \<Rightarrow>
          if tok = [] then NoToken
          else (case jwt_decode w tok of
                  Inl ExpiredSignatureError \<Rightarrow> Expired
                | Inl _ \<Rightarrow> Malformed
                | Inr payload \<Rightarrow>
                    if dict_get payload ''type'' \<noteq> Some (JStr ''access'') then WrongType
                    else (case dict_get payload ''sub'' of
                            None \<Rightarrow> Malformed
                          | Some sub \<Rightarrow>
                              (case find (\<lambda>u. sql_id_eq w (u_id u) sub) (users db) of
                                 None \<Rightarrow> UserMissing
                               | Some user \<Rightarrow>
                                   if is_active user then Valid user else UserInactive))))"

section \<open>The operations on the refresh-token table\<close>

text \<open>
  Every operation of the subsystem that reads or writes RefreshToken rows, each run in
  the world of its own request. Lookup and refresh only read.
\<close>

datatype token_op =
    OpCreate int "string option" "string option"
  | OpLookup string
  | OpRevoke string
  | OpRevokeAll int
  | OpLogin Request string string
  | OpRefresh "string option" "string option" "string option"
  | OpLogout "string option"
  | OpResetPassword string string

fun apply_op :: "Session \<Rightarrow> World \<times> token_op \<Rightarrow> Session" where
  "apply_op db (w, OpCreate user_id agent ip) = snd (create_refresh_token w db user_id agent ip)"
| "apply_op db (w, OpLookup token) = db"
| "apply_op db (w, OpRevoke token) = snd (revoke_refresh_token db token)"
| "apply_op db (w, OpRevokeAll user_id) = snd (revoke_all_user_refresh_tokens db user_id)"
| "apply_op db (w, OpLogin request e password) = snd (login w db request e password)"
| "apply_op db (w, OpRefresh r c x) = db"
| "apply_op db (w, OpLogout r) = snd (logout db r)"
| "apply_op db (w, OpResetPassword token new_password) =
     snd (reset_password w db token new_password)"

definition run_ops :: "Session \<Rightarrow> (World \<times> token_op) list \<Rightarrow> Session" where
  "run_ops db ops = foldl apply_op db ops"

text \<open>
  A row is kept when it is the same row up to its revoked flag and a set flag is still
  set; a table is monotonic over an older one when every old row is kept at its place.
\<close>

definition row_kept :: "RefreshToken \<Rightarrow> RefreshToken \<Rightarrow> bool" where
  "row_kept old new =
     (new\<lparr>rt_revoked := True\<rparr> = old\<lparr>rt_revoked := True\<rparr> \<and> (rt_revoked old \<longrightarrow> rt_revoked new))"

definition revoked_monotonic :: "RefreshToken list \<Rightarrow> RefreshToken list \<Rightarrow> bool" where
  "revoked_monotonic old new =
     (length old \<le> length new \<and> list_all2 row_kept old (take (length old) new))"

section \<open>Sample data\<close>

definition sample_world :: World where
  "sample_world =
     \<lparr>ACCESS_TOKEN_EXPIRE_MINUTES = 30, REFRESH_TOKEN_EXPIRE_DAYS = 7, utcnow = 1000,
      token_urlsafe = (\<lambda>n. if n = 64 then ''rt-new'' else ''tok-new''),
      uuid4 = ''jti-1'',
      pwd_context_verify = (\<lambda>p h. h = ''h:'' @ p),
      pwd_context_hash = (\<lambda>p. ''h:'' @ p),
      jwt_encode = (\<lambda>claims. ''jwt''),
      jwt_decode = (\<lambda>s. if s = ''jwt-alice''
                          then Inr [(''sub'', JStr ''1''), (''type'', JStr ''access'')]
                          else Inl JWTError),
      ip_address_valid = (\<lambda>s. False),
      sql_id_eq = (\<lambda>i v. (i = 1 \<and> v = JStr ''1'') \<or> (i = 2 \<and> v = JStr ''2''))\<rparr>"

definition alice :: User where
  "alice = \<lparr>u_id = 1, email = ''alice@x.com'', username = ''alice'',
            hashed_password = ''h:pw12345678'', full_name = None, role = USER,
            is_active = True, is_verified = False\<rparr>"

definition bob :: User where
  "bob = \<lparr>u_id = 2, email = ''admin@example.com'', username = ''bob'',
          hashed_password = ''h:pw87654321'', full_name = None, role = USER,
          is_active = False, is_verified = False\<rparr>"

definition sample_db :: Session where
  "sample_db =
     \<lparr>users = [alice, bob],
      refresh_tokens =
        [\<lparr>rt_id = 1, rt_token = ''rt-a1'', rt_expires_at = 9000, rt_revoked = False,
          rt_user_id = 1, rt_user_agent = None, rt_ip_address = None\<rparr>,
         \<lparr>rt_id = 2, rt_token = ''rt-b1'', rt_expires_at = 9000, rt_revoked = False,
          rt_user_id = 2, rt_user_agent = None, rt_ip_address = None\<rparr>,
         \<lparr>rt_id = 3, rt_token = ''rt-a2'', rt_expires_at = 9000, rt_revoked = True,
          rt_user_id = 1, rt_user_agent = None, rt_ip_address = None\<rparr>],
      verification_tokens =
        [\<lparr>vt_id = 1, vt_token = ''v-1'', vt_expires_at = 5000, vt_user_id = 1\<rparr>],
      password_reset_tokens =
        [\<lparr>pr_id = 1, pr_token = ''p-1'', pr_expires_at = 5000, pr_user_id = 1\<rparr>]\<rparr>"

definition sample_request :: Request where
  "sample_request = \<lparr>user_agent = Some ''curl'', x_forwarded_for = None, client_host = ''10.0.0.1''\<rparr>"

definition sample_ext :: Collaborators where
  "sample_ext =
     \<lparr>path_exists = (\<lambda>p. p = ''vectorstores/pdf_1_a.pdf''),
      load_local = (\<lambda>p. Inr (\<lambda>q. [''Alan Turing proposed machines.''])),
      text_generation =
        (\<lambda>n p. if n = 0
               then Inr (''Question: Who?\<newline>Options:\<newline>A) x\<newline>B) y\<newline>'' @
                         ''C) z\<newline>D) w\<newline>Answer: A - yes'')
               else if n = 1
               then Inr ''Question: Who was Turing?\<newline>Answer: A mathematician.''
               else Inl ''timeout''),
      unbound_subject_text = ''local variable 'subject' referenced before assignment'',
      zero_division_text = ''integer division or modulo by zero''\<rparr>"

definition sample_question_request :: "int \<Rightarrow> QuestionRequest" where
  "sample_question_request n =
     \<lparr>pdf_id = ''pdf_1_a.pdf'', num_questions = n,
      question_types = [''multiple_choice'', ''descriptive'']\<rparr>"

section \<open>General facts about lists\<close>

lemma find_is_None: "(find P xs = None) = (\<forall>x\<in>set xs. \<not> P x)"
  by (induction xs) auto

lemma find_SomeD: "find P xs = Some x \<Longrightarrow> x \<in> set xs \<and> P x"
  by (induction xs) (auto split: if_splits)

lemma distinct_map_eq:
  "distinct (map f xs) \<Longrightarrow> x \<in> set xs \<Longrightarrow> y \<in> set xs \<Longrightarrow> f x = f y \<Longrightarrow> x = y"
  by (meson distinct_map inj_on_def)

section \<open>Revocation is idempotent and keeps every row\<close>

lemma mark_revoked_twice: "mark_revoked ids (mark_revoked ids rows) = mark_revoked ids rows"
  by (induction rows) (simp_all add: mark_revoked_def)

lemma find_token_mark_revoked:
  "find (\<lambda>r. rt_token r = token) (mark_revoked ids rows) =
     map_option (\<lambda>r. if rt_id r \<in> set ids then r\<lparr>rt_revoked := True\<rparr> else r)
       (find (\<lambda>r. rt_token r = token) rows)"
  by (induction rows) (simp_all add: mark_revoked_def)

lemma mark_revoked_same_rows:
  "map (rt_revoked_update (\<lambda>_. True)) (mark_revoked ids rows) =
     map (rt_revoked_update (\<lambda>_. True)) rows"
  by (induction rows) (simp_all add: mark_revoked_def)

text \<open>
  Claim C3. Calling \<open>revoke_refresh_token\<close> a second time with the same token string
  leaves the session exactly as the first call left it, and a revocation keeps every row
  of the table: the rows after it are the rows before it up to the revoked flag, and the
  other tables are untouched.
\<close>

theorem revoke_refresh_token_idempotent:
  "snd (revoke_refresh_token (snd (revoke_refresh_token db token)) token) =
     snd (revoke_refresh_token db token)
   \<and> map (rt_revoked_update (\<lambda>_. True)) (refresh_tokens (snd (revoke_refresh_token db token))) =
     map (rt_revoked_update (\<lambda>_. True)) (refresh_tokens db)
   \<and> length (refresh_tokens (snd (revoke_refresh_token db token))) = length (refresh_tokens db)
   \<and> users (snd (revoke_refresh_token db token)) = users db
   \<and> verification_tokens (snd (revoke_refresh_token db token)) = verification_tokens db
   \<and> password_reset_tokens (snd (revoke_refresh_token db token)) = password_reset_tokens db"
proof (cases "find (\<lambda>r. rt_token r = token) (refresh_tokens db)")
  case None
  then show ?thesis by (simp add: revoke_refresh_token_def)
next
  case (Some r)
  have len: "length (mark_revoked [rt_id r] (refresh_tokens db)) = length (refresh_tokens db)"
    by (simp add: mark_revoked_def)
  from Some show ?thesis
    by (simp add: revoke_refresh_token_def find_token_mark_revoked mark_revoked_twice
        mark_revoked_same_rows len)
qed

section \<open>The endpoints answer as the specification says\<close>

text \<open>
  Claim C4. A registration whose email is the email of a stored user, or whose username is
  the username of a stored user, is answered with an HTTP 400 error, and the session is
  returned as it was: no user row and no verification token is written.
\<close>

theorem register_duplicate_rejected:
  assumes "\<exists>u\<in>set (users db). email u = uc_email user_create \<or> username u = uc_username user_create"
  shows "\<exists>detail. register w db user_create = (Inl (HTTPException 400 detail), db)"
proof -
  from assms have "get_user_by_email db (uc_email user_create) \<noteq> None
      \<or> get_user_by_username db (uc_username user_create) \<noteq> None"
    by (auto simp: get_user_by_email_def get_user_by_username_def find_is_None)
  then show ?thesis
    by (auto simp: register_def HTTP_400_BAD_REQUEST_def)
qed

text \<open>
  The sample store holds the username "alice": registering it again is refused and the
  store is unchanged, while a fresh username is not refused for its name.
\<close>

theorem register_duplicate_rejected_witness:
  "(\<exists>detail. register sample_world sample_db
       \<lparr>uc_email = ''new@x.com'', uc_username = ''alice'', uc_full_name = None,
        uc_password = ''pw12345678''\<rparr> = (Inl (HTTPException 400 detail), sample_db))
   \<and> fst (register sample_world sample_db
       \<lparr>uc_email = ''new@x.com'', uc_username = ''carol'', uc_full_name = None,
        uc_password = ''pw12345678''\<rparr>) \<noteq> Inl (HTTPException 400 ''Username already taken'')"
  using register_duplicate_rejected [of sample_db
      "\<lparr>uc_email = ''new@x.com'', uc_username = ''alice'', uc_full_name = None,
        uc_password = ''pw12345678''\<rparr>" sample_world]
  by (simp add: sample_db_def alice_def bob_def register_def get_user_by_email_def
      get_user_by_username_def create_user_def create_verification_token_def Let_def)

text \<open>
  Claim C2. When the CSRF cookie or the client-supplied CSRF value is missing, or the two
  differ, the refresh handler answers with an HTTP 401 error and so issues no token,
  whatever the refresh-token cookie and the store hold. The CSRF check passes exactly
  when both values are non-empty and \<open>compare_digest\<close>, the library's constant-time
  comparison, returns true on them.
\<close>

theorem refresh_rejects_csrf_mismatch:
  assumes "csrf_token_cookie = None \<or> x_csrf_token = None \<or> csrf_token_cookie \<noteq> x_csrf_token"
  shows "(\<exists>detail. refresh_token w db refresh_token_cookie csrf_token_cookie x_csrf_token =
            Inl (HTTPException 401 detail))
       \<and> verify_csrf_token a b = (a \<noteq> [] \<and> b \<noteq> [] \<and> compare_digest a b = Some True)"
proof
  show "\<exists>detail. refresh_token w db refresh_token_cookie csrf_token_cookie x_csrf_token =
            Inl (HTTPException 401 detail)"
  proof (cases "truthy refresh_token_cookie \<and> truthy csrf_token_cookie \<and> truthy x_csrf_token")
    case False
    then show ?thesis by (auto simp: refresh_token_def HTTP_401_UNAUTHORIZED_def)
  next
    case True
    then obtain c x where cx: "csrf_token_cookie = Some c" "x_csrf_token = Some x"
      by (cases csrf_token_cookie; cases x_csrf_token) auto
    with assms have "c \<noteq> x" by auto
    then have "\<not> verify_csrf_token x c"
      by (auto simp: verify_csrf_token_def compare_digest_def split: option.splits)
    with True cx show ?thesis by (simp add: refresh_token_def HTTP_401_UNAUTHORIZED_def)
  qed
  show "verify_csrf_token a b = (a \<noteq> [] \<and> b \<noteq> [] \<and> compare_digest a b = Some True)"
    by (auto simp: verify_csrf_token_def compare_digest_def split: option.splits)
qed

text \<open>
  In the sample store "rt-a1" is a valid refresh token: with two different CSRF values
  the refresh is refused with 401, with matching ones it is served.
\<close>

theorem refresh_rejects_csrf_mismatch_witness:
  "get_refresh_token (utcnow sample_world) sample_db ''rt-a1'' \<noteq> None
   \<and> (\<exists>detail. refresh_token sample_world sample_db (Some ''rt-a1'') (Some ''csrf-1'')
          (Some ''csrf-2'') = Inl (HTTPException 401 detail))
   \<and> (\<exists>tok. refresh_token sample_world sample_db (Some ''rt-a1'') (Some ''csrf-1'')
          (Some ''csrf-1'') = Inr tok)"
  using refresh_rejects_csrf_mismatch [of "Some ''csrf-1''" "Some ''csrf-2''" sample_world
      sample_db "Some ''rt-a1''"]
  by (simp add: sample_db_def sample_world_def alice_def bob_def get_refresh_token_def
      refresh_token_def verify_csrf_token_def compare_digest_def HTTP_401_UNAUTHORIZED_def Let_def)

text \<open>
  Claim C5. A login whose email names a stored user and whose password verifies against
  that user's hash: when the user is inactive it is answered with an HTTP 401 error and the
  session is unchanged; when the user is active it returns a token response with
  \<open>token_type = "bearer"\<close> and \<open>expires_in = ACCESS_TOKEN_EXPIRE_MINUTES * 60\<close>, and
  sets exactly the three cookies access_token, refresh_token and csrf_token, the first
  carrying the returned access token.
\<close>

theorem login_correct_credentials:
  assumes "get_user_by_email db e = Some user"
      and "pwd_context_verify w password (hashed_password user)"
  shows "(\<not> is_active user \<longrightarrow>
            login w db request e password = (Inl (HTTPException 401 ''Inactive user''), db))
       \<and> (is_active user \<longrightarrow>
            (\<exists>tok cookies db1.
               login w db request e password = (Inr (tok, cookies), db1)
             \<and> token_type tok = ''bearer''
             \<and> expires_in tok = ACCESS_TOKEN_EXPIRE_MINUTES w * 60
             \<and> map c_key cookies = [''access_token'', ''refresh_token'', ''csrf_token'']
             \<and> c_value (cookies ! 0) = access_token tok))"
  using assms
  by (auto simp: login_def authenticate_user_def HTTP_401_UNAUTHORIZED_def Let_def set_cookie_def
      split: prod.splits)

text \<open>
  Alice is active and logs in; Bob's credentials are right but his account is inactive.
\<close>

theorem login_correct_credentials_witness:
  "get_user_by_email sample_db ''alice@x.com'' = Some alice
   \<and> is_active alice
   \<and> (\<exists>tok cookies db1.
         login sample_world sample_db sample_request ''alice@x.com'' ''pw12345678'' =
           (Inr (tok, cookies), db1)
       \<and> token_type tok = ''bearer'' \<and> expires_in tok = 1800
       \<and> map c_key cookies = [''access_token'', ''refresh_token'', ''csrf_token''])
   \<and> login sample_world sample_db sample_request ''admin@example.com'' ''pw87654321'' =
       (Inl (HTTPException 401 ''Inactive user''), sample_db)"
  using login_correct_credentials [of sample_db "''alice@x.com''" alice sample_world
      "''pw12345678''" sample_request]
    login_correct_credentials [of sample_db "''admin@example.com''" bob sample_world
      "''pw87654321''" sample_request]
  by (simp add: sample_db_def sample_world_def alice_def bob_def get_user_by_email_def
      login_def authenticate_user_def create_access_token_def create_refresh_token_def
      generate_csrf_token_def get_client_ip_def sample_request_def set_cookie_def next_id_def
      HTTP_401_UNAUTHORIZED_def Let_def)

text \<open>
  Claim C6. \<open>get_current_user\<close> returns a user exactly when the request is in the Valid
  state of the specification's state machine, and that user is a stored, active user; in
  every other state (no token, expired, malformed, wrong type, user missing, user
  inactive) it raises an HTTP 401 error.
\<close>

theorem get_current_user_only_valid_proceeds:
  "(get_current_user w db token c = Inr user \<longleftrightarrow> session_state w db c = Valid user)
   \<and> ((\<forall>u. session_state w db c \<noteq> Valid u) \<longrightarrow>
        (\<exists>detail. get_current_user w db token c = Inl (HTTPException 401 detail)))
   \<and> (session_state w db c = Valid user \<longrightarrow> user \<in> set (users db) \<and> is_active user)"
  by (auto simp: get_current_user_def session_state_def HTTP_401_UNAUTHORIZED_def
      split: option.splits sum.splits JWTError.splits if_splits dest: find_SomeD)

text \<open>
  Alice's token resolves to Alice; a token the decoder rejects is answered with 401.
\<close>

theorem get_current_user_only_valid_proceeds_witness:
  "get_current_user sample_world sample_db None (Some ''jwt-alice'') = Inr alice
   \<and> session_state sample_world sample_db (Some ''jwt-alice'') = Valid alice
   \<and> session_state sample_world sample_db (Some ''garbage'') = Malformed
   \<and> (\<exists>detail. get_current_user sample_world sample_db None (Some ''garbage'') =
         Inl (HTTPException 401 detail))"
  using get_current_user_only_valid_proceeds [of sample_world sample_db None "Some ''jwt-alice''" alice]
    get_current_user_only_valid_proceeds [of sample_world sample_db None "Some ''garbage''" alice]
  by (simp add: session_state_def sample_world_def sample_db_def alice_def bob_def dict_get_def)

section \<open>Password reset revokes every refresh token of the user\<close>

lemma revoke_all_rows:
  "\<exists>ids. refresh_tokens (snd (revoke_all_user_refresh_tokens db uid)) =
            mark_revoked ids (refresh_tokens db)
       \<and> (\<forall>r\<in>set (refresh_tokens db). rt_user_id r = uid \<and> \<not> rt_revoked r \<longrightarrow> rt_id r \<in> set ids)"
proof (cases "filter (\<lambda>r. rt_user_id r = uid \<and> rt_revoked r = False) (refresh_tokens db) = []")
  case True
  then have "\<forall>r\<in>set (refresh_tokens db). \<not> (rt_user_id r = uid \<and> \<not> rt_revoked r)"
    by (simp add: filter_empty_conv)
  moreover have "mark_revoked [] (refresh_tokens db) = refresh_tokens db"
    by (simp add: mark_revoked_def)
  ultimately show ?thesis using True
    by (intro exI[of _ "[]"]) (simp add: revoke_all_user_refresh_tokens_def)
next
  case False
  then show ?thesis
    by (intro exI[of _ "map rt_id (filter (\<lambda>r. rt_user_id r = uid \<and> rt_revoked r = False)
          (refresh_tokens db))"]) (auto simp: revoke_all_user_refresh_tokens_def)
qed

lemma mark_revoked_covers:
  assumes "\<forall>r\<in>set rows. rt_user_id r = uid \<and> \<not> rt_revoked r \<longrightarrow> rt_id r \<in> set ids"
      and "q \<in> set (mark_revoked ids rows)" and "rt_user_id q = uid"
  shows "rt_revoked q"
  using assms by (auto simp: mark_revoked_def split: if_splits)

lemma mark_revoked_lookup_None:
  assumes d: "distinct (map rt_token rows)"
      and cov: "\<forall>r\<in>set rows. rt_user_id r = uid \<and> \<not> rt_revoked r \<longrightarrow> rt_id r \<in> set ids"
      and r: "r \<in> set rows" "rt_user_id r = uid"
  shows "find (\<lambda>x. rt_token x = rt_token r \<and> rt_expires_at x > now \<and> rt_revoked x = False)
           (mark_revoked ids rows) = None"
proof -
  have "\<not> (rt_token x = rt_token r \<and> rt_expires_at x > now \<and> rt_revoked x = False)"
    if x: "x \<in> set (mark_revoked ids rows)" for x
  proof
    assume a: "rt_token x = rt_token r \<and> rt_expires_at x > now \<and> rt_revoked x = False"
    from x obtain q where q: "q \<in> set rows"
      and xq: "x = (if rt_id q \<in> set ids then q\<lparr>rt_revoked := True\<rparr> else q)"
      by (auto simp: mark_revoked_def)
    from xq a have "rt_token q = rt_token r" by (auto split: if_splits)
    with d q r have "q = r" by (auto dest: distinct_map_eq)
    with xq r have "rt_user_id x = uid" by (auto split: if_splits)
    from mark_revoked_covers[OF cov x this] a show False by simp
  qed
  then show ?thesis by (simp add: find_is_None)
qed

lemma reset_user_password_keeps_refresh_tokens:
  "refresh_tokens (snd (reset_user_password w db t pw)) = refresh_tokens db"
  by (simp add: reset_user_password_def Let_def split: option.splits)

text \<open>
  Claim C1. Let the reset-password request carry a valid, unexpired token, so that
  \<open>reset_user_password\<close> returns the user, and let the token column hold no string twice
  (its unique constraint). Then the handler succeeds, the refresh-token table keeps its
  rows up to their revoked flags, every row of that user is revoked afterwards, and a later
  \<open>get_refresh_token\<close> with the token string of any of the user's rows returns nothing, at
  whatever time it is made.
\<close>

theorem reset_password_revokes_all_refresh_tokens:
  assumes d: "distinct (map rt_token (refresh_tokens db))"
      and ok: "fst (reset_user_password w db t pw) = Some user"
  shows "fst (reset_password w db t pw) = Inr ''Password successfully reset''
       \<and> map (rt_revoked_update (\<lambda>_. True)) (refresh_tokens (snd (reset_password w db t pw))) =
           map (rt_revoked_update (\<lambda>_. True)) (refresh_tokens db)
       \<and> (\<forall>r\<in>set (refresh_tokens (snd (reset_password w db t pw))).
             rt_user_id r = u_id user \<longrightarrow> rt_revoked r)
       \<and> (\<forall>r\<in>set (refresh_tokens db).
             rt_user_id r = u_id user \<longrightarrow>
               get_refresh_token now (snd (reset_password w db t pw)) (rt_token r) = None)"
proof -
  obtain db0 where r0: "reset_user_password w db t pw = (Some user, db0)"
    using ok by (cases "reset_user_password w db t pw") auto
  have rows0: "refresh_tokens db0 = refresh_tokens db"
    using reset_user_password_keeps_refresh_tokens[of w db t pw] r0 by simp
  have rp: "reset_password w db t pw =
      (Inr ''Password successfully reset'', snd (revoke_all_user_refresh_tokens db0 (u_id user)))"
    using r0 by (simp add: reset_password_def)
  from revoke_all_rows[of db0 "u_id user"] rows0 obtain ids where
    rows: "refresh_tokens (snd (revoke_all_user_refresh_tokens db0 (u_id user))) =
             mark_revoked ids (refresh_tokens db)"
    and cov: "\<forall>r\<in>set (refresh_tokens db). rt_user_id r = u_id user \<and> \<not> rt_revoked r \<longrightarrow>
                rt_id r \<in> set ids"
    by auto
  show ?thesis
    using mark_revoked_covers[OF cov] mark_revoked_lookup_None[OF d cov]
    by (simp add: rp rows mark_revoked_same_rows get_refresh_token_def)
qed

text \<open>
  In the sample store Alice holds "rt-a1" (valid) and "rt-a2" (revoked already), Bob holds
  "rt-b1". After Alice's reset neither of her tokens validates, and Bob's row is untouched.
\<close>

theorem reset_password_revokes_all_refresh_tokens_witness:
  "distinct (map rt_token (refresh_tokens sample_db))
   \<and> fst (reset_user_password sample_world sample_db ''p-1'' ''newpw12345'') =
       Some (alice\<lparr>hashed_password := ''h:newpw12345''\<rparr>)
   \<and> get_refresh_token 1000 sample_db ''rt-a1'' \<noteq> None
   \<and> get_refresh_token 1000 (snd (reset_password sample_world sample_db ''p-1'' ''newpw12345''))
       ''rt-a1'' = None
   \<and> get_refresh_token 1000 (snd (reset_password sample_world sample_db ''p-1'' ''newpw12345''))
       ''rt-a2'' = None
   \<and> map rt_revoked
       (refresh_tokens (snd (reset_password sample_world sample_db ''p-1'' ''newpw12345''))) =
       [True, False, True]"
  using reset_password_revokes_all_refresh_tokens [of sample_db sample_world "''p-1''"
      "''newpw12345''" "alice\<lparr>hashed_password := ''h:newpw12345''\<rparr>" 1000]
  by (simp add: sample_db_def sample_world_def alice_def bob_def reset_password_def
      reset_user_password_def get_user_by_id_def revoke_all_user_refresh_tokens_def
      mark_revoked_def get_refresh_token_def Let_def)

section \<open>Verification and reset tokens are single-use\<close>

lemma verify_user_email_single_use:
  assumes d: "distinct (map vt_token (verification_tokens db))"
      and ok: "verify_user_email w db t = (Some user, db1)"
  shows "verify_user_email w' db1 t = (None, db1)"
proof -
  from ok obtain tk where f: "find (\<lambda>x. vt_token x = t \<and> vt_expires_at x > utcnow w) (verification_tokens db) = Some tk"
    and db1: "verification_tokens db1 = filter (\<lambda>x. vt_id x \<noteq> vt_id tk) (verification_tokens db)"
    by (auto simp: verify_user_email_def split: option.splits)
  from find_SomeD[OF f] have tk: "tk \<in> set (verification_tokens db)" "vt_token tk = t" by auto
  have "\<forall>x\<in>set (verification_tokens db1). vt_token x \<noteq> t"
  proof
    fix x assume x: "x \<in> set (verification_tokens db1)"
    show "vt_token x \<noteq> t"
    proof
      assume "vt_token x = t"
      with x db1 tk d have "x = tk" by (auto dest: distinct_map_eq)
      with x db1 show False by simp
    qed
  qed
  then have "find (\<lambda>x. vt_token x = t \<and> vt_expires_at x > utcnow w') (verification_tokens db1) = None"
    by (simp add: find_is_None)
  then show ?thesis by (simp add: verify_user_email_def)
qed

lemma reset_user_password_single_use:
  assumes d: "distinct (map pr_token (password_reset_tokens db))"
      and ok: "reset_user_password w db t pw = (Some user, db1)"
      and same: "password_reset_tokens db2 = password_reset_tokens db1"
  shows "reset_user_password w' db2 t pw' = (None, db2)"
proof -
  from ok obtain tk where f: "find (\<lambda>x. pr_token x = t \<and> pr_expires_at x > utcnow w) (password_reset_tokens db) = Some tk"
    and db1: "password_reset_tokens db1 = filter (\<lambda>x. pr_id x \<noteq> pr_id tk) (password_reset_tokens db)"
    by (auto simp: reset_user_password_def Let_def split: option.splits)
  from find_SomeD[OF f] have tk: "tk \<in> set (password_reset_tokens db)" "pr_token tk = t" by auto
  have "\<forall>x\<in>set (password_reset_tokens db2). pr_token x \<noteq> t"
  proof
    fix x assume x: "x \<in> set (password_reset_tokens db2)"
    show "pr_token x \<noteq> t"
    proof
      assume "pr_token x = t"
      with x db1 same tk d have "x = tk" by (auto dest: distinct_map_eq)
      with x db1 same show False by simp
    qed
  qed
  then have "find (\<lambda>x. pr_token x = t \<and> pr_expires_at x > utcnow w') (password_reset_tokens db2) = None"
    by (simp add: find_is_None)
  then show ?thesis by (simp add: reset_user_password_def)
qed

lemma revoke_all_keeps_reset_tokens:
  "password_reset_tokens (snd (revoke_all_user_refresh_tokens db uid)) = password_reset_tokens db"
  by (simp add: revoke_all_user_refresh_tokens_def Let_def)

text \<open>
  Claim C7. With no token string stored twice (the unique constraint of both token tables):
  after an email verification that succeeded, a second verification with the same token
  string, at any later time, finds no token and is answered with an HTTP 400 error; after
  a password reset that succeeded, a second reset with the same token string, with any
  password, finds no token and is answered with an HTTP 400 error. The second attempt
  leaves the session as it is.
\<close>

theorem tokens_single_use:
  assumes "distinct (map vt_token (verification_tokens db))"
      and "distinct (map pr_token (password_reset_tokens db))"
  shows "(verify_email w db t = (Inr d, db1) \<longrightarrow>
            verify_user_email w' db1 t = (None, db1)
          \<and> (\<exists>detail. verify_email w' db1 t = (Inl (HTTPException 400 detail), db1)))
       \<and> (reset_password w db t pw = (Inr d, db1) \<longrightarrow>
            reset_user_password w' db1 t pw' = (None, db1)
          \<and> (\<exists>detail. reset_password w' db1 t pw' = (Inl (HTTPException 400 detail), db1)))"
proof (intro conjI impI)
  assume "verify_email w db t = (Inr d, db1)"
  then obtain user where "verify_user_email w db t = (Some user, db1)"
    by (auto simp: verify_email_def split: prod.splits option.splits)
  from verify_user_email_single_use[OF assms(1) this]
  show "verify_user_email w' db1 t = (None, db1)"
    and "\<exists>detail. verify_email w' db1 t = (Inl (HTTPException 400 detail), db1)"
    by (simp_all add: verify_email_def HTTP_400_BAD_REQUEST_def)
next
  assume "reset_password w db t pw = (Inr d, db1)"
  then obtain user db0 where r: "reset_user_password w db t pw = (Some user, db0)"
    and db1: "db1 = snd (revoke_all_user_refresh_tokens db0 (u_id user))"
    by (auto simp: reset_password_def split: prod.splits option.splits)
  have "password_reset_tokens db1 = password_reset_tokens db0"
    by (simp add: db1 revoke_all_keeps_reset_tokens)
  from reset_user_password_single_use[OF assms(2) r this]
  show "reset_user_password w' db1 t pw' = (None, db1)"
    and "\<exists>detail. reset_password w' db1 t pw' = (Inl (HTTPException 400 detail), db1)"
    by (simp_all add: reset_password_def HTTP_400_BAD_REQUEST_def)
qed

text \<open>
  In the sample store the verification token "v-1" and the reset token "p-1" each work
  once and are refused the second time.
\<close>

theorem tokens_single_use_witness:
  "distinct (map vt_token (verification_tokens sample_db))
   \<and> distinct (map pr_token (password_reset_tokens sample_db))
   \<and> fst (verify_email sample_world sample_db ''v-1'') = Inr ''Email successfully verified''
   \<and> fst (verify_email sample_world (snd (verify_email sample_world sample_db ''v-1'')) ''v-1'') =
       Inl (HTTPException 400 ''Invalid or expired verification token'')
   \<and> fst (reset_password sample_world sample_db ''p-1'' ''newpw12345'') =
       Inr ''Password successfully reset''
   \<and> fst (reset_password sample_world
            (snd (reset_password sample_world sample_db ''p-1'' ''newpw12345'')) ''p-1''
            ''newpw12345'') =
       Inl (HTTPException 400 ''Invalid or expired password reset token'')"
  using tokens_single_use [of sample_db sample_world "''v-1''" "''Email successfully verified''"
      "snd (verify_email sample_world sample_db ''v-1'')" sample_world "''newpw12345''"
      "''newpw12345''"]
    tokens_single_use [of sample_db sample_world "''p-1''" "''Password successfully reset''"
      "snd (reset_password sample_world sample_db ''p-1'' ''newpw12345'')" sample_world
      "''newpw12345''" "''newpw12345''"]
  by (simp add: sample_db_def sample_world_def alice_def bob_def verify_email_def
      verify_user_email_def reset_password_def reset_user_password_def get_user_by_id_def
      revoke_all_user_refresh_tokens_def mark_revoked_def HTTP_400_BAD_REQUEST_def Let_def)

section \<open>The revoked flag only ever goes from false to true\<close>

lemma row_kept_refl: "row_kept r r"
  by (simp add: row_kept_def)

lemma row_kept_trans: "row_kept a b \<Longrightarrow> row_kept b c \<Longrightarrow> row_kept a c"
  by (auto simp: row_kept_def)

lemma revoked_monotonic_nth:
  "revoked_monotonic old new \<longleftrightarrow>
     (length old \<le> length new \<and> (\<forall>i<length old. row_kept (old ! i) (new ! i)))"
  by (auto simp: revoked_monotonic_def list_all2_conv_all_nth)

lemma revoked_monotonic_refl: "revoked_monotonic rows rows"
  by (simp add: revoked_monotonic_nth row_kept_refl)

lemma revoked_monotonic_trans:
  "revoked_monotonic a b \<Longrightarrow> revoked_monotonic b c \<Longrightarrow> revoked_monotonic a c"
  unfolding revoked_monotonic_nth
  by (meson le_trans less_le_trans row_kept_trans)

lemma revoked_monotonic_append: "revoked_monotonic rows (rows @ added)"
  by (simp add: revoked_monotonic_nth nth_append row_kept_refl)

lemma revoked_monotonic_mark: "revoked_monotonic rows (mark_revoked ids rows)"
  by (simp add: revoked_monotonic_nth mark_revoked_def row_kept_def)

lemma create_monotonic:
  "revoked_monotonic (refresh_tokens db) (refresh_tokens (snd (create_refresh_token w db u a i)))"
  by (simp add: create_refresh_token_def Let_def revoked_monotonic_append)

lemma revoke_monotonic:
  "revoked_monotonic (refresh_tokens db) (refresh_tokens (snd (revoke_refresh_token db t)))"
  by (simp add: revoke_refresh_token_def revoked_monotonic_refl revoked_monotonic_mark
      split: option.splits)

lemma revoke_all_monotonic:
  "revoked_monotonic (refresh_tokens db)
     (refresh_tokens (snd (revoke_all_user_refresh_tokens db u)))"
  by (simp add: revoke_all_user_refresh_tokens_def Let_def revoked_monotonic_refl
      revoked_monotonic_mark)

lemma login_monotonic:
  "revoked_monotonic (refresh_tokens db) (refresh_tokens (snd (login w db request e p)))"
proof (cases "authenticate_user w db e p")
  case None
  then show ?thesis by (simp add: login_def revoked_monotonic_refl)
next
  case (Some user)
  show ?thesis
  proof (cases "is_active user")
    case False
    with Some show ?thesis by (simp add: login_def revoked_monotonic_refl)
  next
    case True
    with Some have "snd (login w db request e p) =
        snd (create_refresh_token w db (u_id user) (user_agent request)
               (Some (get_client_ip w request)))"
      by (simp add: login_def Let_def split: prod.splits)
    then show ?thesis by (simp add: create_monotonic)
  qed
qed

lemma logout_monotonic:
  "revoked_monotonic (refresh_tokens db) (refresh_tokens (snd (logout db r)))"
  by (simp add: logout_def Let_def revoked_monotonic_refl revoke_monotonic)

lemma reset_password_monotonic:
  "revoked_monotonic (refresh_tokens db) (refresh_tokens (snd (reset_password w db t pw)))"
proof (cases "reset_user_password w db t pw")
  case (Pair r db0)
  have rows: "refresh_tokens db0 = refresh_tokens db"
    using reset_user_password_keeps_refresh_tokens[of w db t pw] Pair by simp
  show ?thesis
  proof (cases r)
    case None
    with Pair rows show ?thesis by (simp add: reset_password_def revoked_monotonic_refl)
  next
    case (Some user)
    with Pair have "snd (reset_password w db t pw) =
        snd (revoke_all_user_refresh_tokens db0 (u_id user))"
      by (simp add: reset_password_def)
    with revoke_all_monotonic[of db0 "u_id user"] rows show ?thesis by simp
  qed
qed

lemma apply_op_monotonic:
  "revoked_monotonic (refresh_tokens db) (refresh_tokens (apply_op db wop))"
proof (cases wop)
  case (Pair w op)
  then show ?thesis
    by (cases op)
      (simp_all add: revoked_monotonic_refl create_monotonic revoke_monotonic
        revoke_all_monotonic login_monotonic logout_monotonic reset_password_monotonic)
qed

lemma run_ops_monotonic:
  "revoked_monotonic (refresh_tokens db) (refresh_tokens (run_ops db ops))"
  unfolding run_ops_def
proof (induction ops arbitrary: db)
  case Nil
  then show ?case by (simp add: revoked_monotonic_refl)
next
  case (Cons wop ops)
  from revoked_monotonic_trans[OF apply_op_monotonic Cons.IH]
  show ?case by simp
qed

text \<open>
  Claim C9. Over any sequence of operations on the refresh-token table (create, lookup,
  revoke, revoke-all, login, refresh, logout, password reset), every row of the table is
  still there at its place, unchanged but for its revoked flag, and a row that was revoked
  is still revoked. A token is created as one new row at the end of the table, with the
  revoked flag false.
\<close>

theorem revoked_flag_monotonic:
  "revoked_monotonic (refresh_tokens db) (refresh_tokens (run_ops db ops))
   \<and> (\<exists>row. refresh_tokens (snd (create_refresh_token w db user_id agent ip)) =
               refresh_tokens db @ [row]
            \<and> rt_token row = fst (create_refresh_token w db user_id agent ip)
            \<and> rt_revoked row = False)"
  by (simp add: run_ops_monotonic create_refresh_token_def Let_def)

text \<open>
  A login, two logouts with Bob's token, a refresh and Alice's password reset, on the
  sample store: the revoked row stays revoked and the other three end revoked.
\<close>

theorem revoked_flag_monotonic_witness:
  "revoked_monotonic (refresh_tokens sample_db)
     (refresh_tokens (run_ops sample_db
        [(sample_world, OpLogin sample_request ''alice@x.com'' ''pw12345678''),
         (sample_world, OpLogout (Some ''rt-b1'')),
         (sample_world, OpLogout (Some ''rt-b1'')),
         (sample_world, OpRefresh (Some ''rt-a1'') (Some ''c'') (Some ''c'')),
         (sample_world, OpResetPassword ''p-1'' ''newpw12345'')]))
   \<and> map rt_revoked (refresh_tokens (run_ops sample_db
        [(sample_world, OpLogin sample_request ''alice@x.com'' ''pw12345678''),
         (sample_world, OpLogout (Some ''rt-b1'')),
         (sample_world, OpLogout (Some ''rt-b1'')),
         (sample_world, OpRefresh (Some ''rt-a1'') (Some ''c'') (Some ''c'')),
         (sample_world, OpResetPassword ''p-1'' ''newpw12345'')])) = [True, True, True, True]"
  using revoked_flag_monotonic [of sample_db
        "[(sample_world, OpLogin sample_request ''alice@x.com'' ''pw12345678''),
         (sample_world, OpLogout (Some ''rt-b1'')),
         (sample_world, OpLogout (Some ''rt-b1'')),
         (sample_world, OpRefresh (Some ''rt-a1'') (Some ''c'') (Some ''c'')),
         (sample_world, OpResetPassword ''p-1'' ''newpw12345'')]" sample_world 1 None None]
  by (simp add: run_ops_def sample_db_def sample_world_def alice_def bob_def sample_request_def
      login_def authenticate_user_def get_user_by_email_def create_access_token_def
      create_refresh_token_def generate_csrf_token_def get_client_ip_def set_cookie_def
      next_id_def logout_def revoke_refresh_token_def reset_password_def reset_user_password_def
      get_user_by_id_def revoke_all_user_refresh_tokens_def mark_revoked_def Let_def)

section \<open>The admin gate looks at the email\<close>

lemma py_in_iff: "py_in sub s \<longleftrightarrow> (\<exists>pre post. s = pre @ sub @ post)"
proof (induction s)
  case Nil
  then show ?case by auto
next
  case (Cons c cs)
  show ?case
  proof
    assume "py_in sub (c # cs)"
    then consider "startswith sub (c # cs)" | "py_in sub cs" by auto
    then show "\<exists>pre post. c # cs = pre @ sub @ post"
    proof cases
      case 1
      then have "c # cs = [] @ sub @ drop (length sub) (c # cs)"
        unfolding startswith_def by (metis append_Nil append_take_drop_id)
      then show ?thesis by blast
    next
      case 2
      with Cons.IH obtain pre post where "cs = pre @ sub @ post" by auto
      then have "c # cs = (c # pre) @ sub @ post" by simp
      then show ?thesis by blast
    qed
  next
    assume "\<exists>pre post. c # cs = pre @ sub @ post"
    then obtain pre post where e: "c # cs = pre @ sub @ post" by auto
    show "py_in sub (c # cs)"
    proof (cases pre)
      case Nil
      with e have "startswith sub (c # cs)" by (simp add: startswith_def)
      then show ?thesis by simp
    next
      case (Cons p ps)
      with e have "cs = ps @ sub @ post" by simp
      with Cons.IH show ?thesis by auto
    qed
  qed
qed

lemma lower_split:
  assumes h: "lower s = a @ b @ c"
  shows "\<exists>pre mid post. s = pre @ mid @ post \<and> lower mid = b"
proof -
  let ?pre = "take (length a) s"
  let ?mid = "take (length b) (drop (length a) s)"
  let ?post = "drop (length b) (drop (length a) s)"
  have "s = ?pre @ ?mid @ ?post" by (simp only: append_take_drop_id)
  moreover have "lower ?mid = b"
    using h unfolding lower_def by (simp add: take_map[symmetric] drop_map[symmetric])
  ultimately show ?thesis by blast
qed

lemma is_admin_iff: "is_admin user = py_in ''admin'' (lower (email user))"
  by (simp add: is_admin_def)

text \<open>
  Claim C10. \<open>is_admin\<close> is true exactly when the user's email contains "admin" in any
  mix of upper and lower case; the role does not enter. The \<open>/admin/stats\<close> handler serves
  every such user and answers every other user with an HTTP 403 error.
\<close>

theorem is_admin_by_email:
  "(is_admin user \<longleftrightarrow> (\<exists>pre mid post. email user = pre @ mid @ post \<and> lower mid = ''admin''))
   \<and> (is_admin user \<longrightarrow> (\<exists>stats. get_dashboard_stats now user = Inr stats))
   \<and> (\<not> is_admin user \<longrightarrow>
        get_dashboard_stats now user = Inl (HTTPException 403 ''Admin access required''))"
proof -
  have "is_admin user \<longleftrightarrow> (\<exists>pre mid post. email user = pre @ mid @ post \<and> lower mid = ''admin'')"
  proof
    assume "is_admin user"
    then obtain a c where "lower (email user) = a @ ''admin'' @ c"
      unfolding is_admin_iff py_in_iff by blast
    from lower_split[OF this]
    show "\<exists>pre mid post. email user = pre @ mid @ post \<and> lower mid = ''admin''" .
  next
    assume "\<exists>pre mid post. email user = pre @ mid @ post \<and> lower mid = ''admin''"
    then obtain pre mid post where "email user = pre @ mid @ post" "lower mid = ''admin''"
      by auto
    then have "lower (email user) = lower pre @ ''admin'' @ lower post"
      by (simp add: lower_def)
    then show "is_admin user" unfolding is_admin_iff py_in_iff by blast
  qed
  then show ?thesis by (auto simp: get_dashboard_stats_def)
qed

text \<open>
  Bob has the role "user" and the email "admin@example.com" and passes the admin check;
  Alice with the role "admin" and the email "alice@x.com" does not.
\<close>

theorem is_admin_by_email_witness:
  "role bob = USER \<and> email bob = ''admin@example.com'' \<and> is_admin bob
   \<and> (\<exists>stats. get_dashboard_stats 0 bob = Inr stats)
   \<and> is_admin (bob\<lparr>email := ''x.ADMINistrator@y.org''\<rparr>)
   \<and> \<not> is_admin (alice\<lparr>role := ADMIN\<rparr>)"
  using is_admin_by_email [of bob 0]
  by (simp add: bob_def alice_def is_admin_def lower_def lower_char_def ascii_uppercase_def
      ascii_lowercase_def startswith_def get_dashboard_stats_def)

section \<open>The question pipeline fills every slot\<close>

lemma add_docs_length: "length (fst acc) \<le> length (fst (add_docs docs acc))"
proof (induction docs arbitrary: acc)
  case Nil
  then show ?case by simp
next
  case (Cons doc docs)
  obtain a u where acc: "acc = (a, u)" by (cases acc)
  show ?case
  proof (cases "doc \<in> u")
    case True
    with Cons.IH[of "(a, u)"] acc show ?thesis by simp
  next
    case False
    with Cons.IH[of "(a @ [doc], insert (take 100 doc) u)"] acc show ?thesis by simp
  qed
qed

lemma add_docs_first_nonempty:
  assumes "docs \<noteq> []"
  shows "fst (add_docs docs ([], {})) \<noteq> []"
proof -
  from assms obtain d ds where docs: "docs = d # ds" by (cases docs) auto
  have "length (fst ([d], {take 100 d})) \<le> length (fst (add_docs ds ([d], {take 100 d})))"
    by (rule add_docs_length)
  with docs show ?thesis by auto
qed

lemma foldl_add_docs_length:
  "length (fst acc) \<le> length (fst (foldl (\<lambda>acc topic. add_docs (retriever topic) acc) acc topics))"
proof (induction topics arbitrary: acc)
  case Nil
  then show ?case by simp
next
  case (Cons t ts)
  from add_docs_length[of acc "retriever t"] Cons.IH[of "add_docs (retriever t) acc"]
  show ?case by simp
qed

lemma gather_more_length:
  "length (fst acc) \<le> length (fst (gather_more retriever n is acc))"
proof (induction "is" arbitrary: acc)
  case Nil
  then show ?case by simp
next
  case (Cons i rest)
  let ?acc1 = "add_docs (retriever (''topic_'' @ str_int (int i))) acc"
  from add_docs_length[of acc "retriever (''topic_'' @ str_int (int i))"] Cons.IH[of ?acc1]
  show ?case by (simp add: Let_def)
qed

lemma take_topics:
  "\<exists>rest. take 6 query_topics = ''main concepts and principles'' # rest"
  by (simp add: query_topics_def)

lemma gather_docs_nonempty:
  assumes "retriever ''main concepts and principles'' \<noteq> []"
  shows "gather_docs retriever n \<noteq> []"
proof -
  define step where "step = (\<lambda>acc topic. add_docs (retriever topic) acc)"
  define acc where "acc = foldl step ([], {}) (take 6 query_topics)"
  from take_topics obtain rest where
    t: "take 6 query_topics = ''main concepts and principles'' # rest" by blast
  define acc0 where "acc0 = add_docs (retriever ''main concepts and principles'') ([], {})"
  have "acc = foldl step acc0 rest"
    unfolding acc_def t acc0_def by (simp add: step_def)
  moreover have "fst acc0 \<noteq> []"
    unfolding acc0_def using assms by (rule add_docs_first_nonempty)
  moreover have "length (fst acc0) \<le> length (fst (foldl step acc0 rest))"
    unfolding step_def by (rule foldl_add_docs_length)
  ultimately have ne: "fst acc \<noteq> []" by auto
  have "length (fst acc) \<le> length (fst (gather_more retriever n [0..<10] acc))"
    by (rule gather_more_length)
  with ne have "fst (gather_more retriever n [0..<10] acc) \<noteq> []" by auto
  with ne show ?thesis
    unfolding gather_docs_def Let_def acc_def step_def by (simp split: if_splits)
qed


lemma generate_slot_appends:
  assumes "all_docs \<noteq> []"
  shows "\<exists>st'. generate_slot ext all_docs q_type i st = Inr st'
           \<and> questions st' =
               questions st @
               [case parse_question q_type
                       (generate_text (text_generation ext (n_calls st))
                          (slot_prompt q_type (slot_context all_docs i st)
                             (choose_subject (used_subjects st) i (slot_context all_docs i st)) i))
                       (used_questions st) of
                  (Some p, used1) \<Rightarrow> p
                | (None, used1) \<Rightarrow>
                    fst (fallback_question q_type
                           (choose_subject (used_subjects st) i (slot_context all_docs i st)) i
                           (length (questions st)) used1)]"
  using assms
  by (simp add: generate_slot_def Let_def split: prod.splits option.splits)



lemma parse_question_Some:
  assumes "fst (parse_question q_type result used) = Some p"
  shows "\<not> py_in ''Error:'' result \<and> 2 \<le> length (split ''Question:'' result)
       \<and> question p \<notin> used
       \<and> (q_type = ''multiple_choice'' \<longrightarrow> (\<exists>opts. options p = Some opts \<and> length opts = 4))"
  using assms
  by (auto simp: parse_question_def Let_def split: if_splits)

lemma parse_question_None:
  assumes "py_in ''Error:'' result
         \<or> length (split ''Question:'' result) < 2
         \<or> strip (piece 0 (split (if q_type = ''multiple_choice'' then ''Options:'' else ''Answer:'')
                              (piece 1 (split ''Question:'' result)))) \<in> used
         \<or> \<not> py_in ''Answer:'' result
         \<or> (q_type = ''multiple_choice''
              \<and> (\<not> py_in ''Options:'' result
                   \<or> length (parse_options (strip (piece 0 (split ''Answer:''
                         (piece 1 (split ''Options:'' result)))))) \<noteq> 4))"
  shows "fst (parse_question q_type result used) = None"
  using assms
  by (auto simp: parse_question_def Let_def)

lemma parse_question_iff:
  "fst (parse_question q_type result used) = Some p \<longleftrightarrow>
     \<not> py_in ''Error:'' result
   \<and> 2 \<le> length (split ''Question:'' result)
   \<and> question p \<notin> used
   \<and> py_in ''Answer:'' result
   \<and> (q_type = ''multiple_choice'' \<longrightarrow>
        py_in ''Options:'' result
        \<and> length (parse_options (strip (piece 0 (split ''Answer:''
              (piece 1 (split ''Options:'' result)))))) = 4)
   \<and> p = \<lparr>question =
              strip (piece 0 (split (if q_type = ''multiple_choice'' then ''Options:''
                                     else ''Answer:'')
                                (piece 1 (split ''Question:'' result)))),
            answer = strip (piece 1 (split ''Answer:'' result)),
            question_type = q_type,
            options = (if q_type = ''multiple_choice''
                       then Some (parse_options (strip (piece 0 (split ''Answer:''
                              (piece 1 (split ''Options:'' result))))))
                       else None)\<rparr>"
  by (auto simp: parse_question_def Let_def)



lemma slots_loop_length:
  assumes "all_docs \<noteq> []"
  shows "\<exists>st'. slots_loop ext all_docs q_type is st = Inr st'
           \<and> length (questions st') = length (questions st) + length is"
proof (induction "is" arbitrary: st)
  case Nil
  then show ?case by simp
next
  case (Cons i rest)
  from generate_slot_appends[OF assms, of ext q_type i st] obtain st1 where
    s1: "generate_slot ext all_docs q_type i st = Inr st1"
    and l1: "length (questions st1) = Suc (length (questions st))"
    by auto
  from Cons.IH[of st1] obtain st2 where
    "slots_loop ext all_docs q_type rest st1 = Inr st2"
    "length (questions st2) = length (questions st1) + length rest"
    by auto
  with s1 l1 show ?case by simp
qed

lemma types_loop_length:
  assumes docs: "all_docs \<noteq> []" and per: "0 \<le> per" and rem: "0 \<le> rem"
  shows "\<exists>st'. types_loop ext all_docs per rem types st = Inr st'
           \<and> length (questions st') =
               length (questions st) + nat per * length types + min (nat rem) (length types)"
  using rem
proof (induction types arbitrary: rem st)
  case Nil
  then show ?case by simp
next
  case (Cons q_type rest)
  define n where "n = per + (if rem > 0 then 1 else 0)"
  define rem1 where "rem1 = rem - (if rem > 0 then 1 else 0)"
  from slots_loop_length[OF docs, of ext q_type "[0..<nat n]" st] obtain st1 where
    s1: "slots_loop ext all_docs q_type [0..<nat n] st = Inr st1"
    and l1: "length (questions st1) = length (questions st) + nat n"
    by auto
  have r1: "0 \<le> rem1" using Cons.prems by (simp add: rem1_def)
  from Cons.IH[OF r1, of st1] obtain st2 where
    s2: "types_loop ext all_docs per rem1 rest st1 = Inr st2"
    and l2: "length (questions st2) =
               length (questions st1) + nat per * length rest + min (nat rem1) (length rest)"
    by auto
  have arith: "nat n + nat per * length rest + min (nat rem1) (length rest) =
          nat per * Suc (length rest) + min (nat rem) (Suc (length rest))"
  proof (cases "rem > 0")
    case True
    then have "nat n = Suc (nat per)" "nat rem = Suc (nat rem1)"
      using per by (simp_all add: n_def rem1_def)
    then show ?thesis by simp
  next
    case False
    with Cons.prems have "rem = 0" by simp
    then show ?thesis by (simp add: n_def rem1_def)
  qed
  have "types_loop ext all_docs per rem (q_type # rest) st = Inr st2"
    using s1 s2 by (simp add: Let_def n_def rem1_def)
  moreover have "length (questions st2) =
      length (questions st) + nat per * length (q_type # rest)
        + min (nat rem) (length (q_type # rest))"
    using l1 l2 arith by simp
  ultimately show ?case by blast
qed

lemma types_loop_negative:
  assumes per: "per < 0" and rem: "0 \<le> rem"
  shows "types_loop ext all_docs per rem types st = Inr st"
  using rem
proof (induction types arbitrary: rem)
  case Nil
  then show ?case by simp
next
  case (Cons q_type rest)
  have "nat (per + (if rem > 0 then 1 else 0)) = 0" using per by simp
  moreover have "0 \<le> rem - (if rem > 0 then 1 else 0)" using Cons.prems by simp
  ultimately show ?case using Cons.IH by (simp add: Let_def)
qed

lemma types_loop_count:
  assumes docs: "all_docs \<noteq> []" and k: "types \<noteq> []"
  shows "\<exists>st'. types_loop ext all_docs (n div int (length types)) (n mod int (length types))
                  types st = Inr st'
           \<and> length (questions st') = length (questions st) + nat n"
proof (cases "0 \<le> n")
  case True
  define k where "k = int (length types)"
  have kpos: "0 < k" using assms(2) by (simp add: k_def)
  have per: "0 \<le> n div k" using True kpos by (simp add: pos_imp_zdiv_nonneg_iff)
  have rem: "0 \<le> n mod k" "n mod k < k" using kpos by simp_all
  from types_loop_length[OF docs per rem(1), of ext types st] obtain st' where
    s: "types_loop ext all_docs (n div k) (n mod k) types st = Inr st'"
    and l: "length (questions st') =
              length (questions st) + nat (n div k) * length types
                + min (nat (n mod k)) (length types)"
    by auto
  have "nat (n mod k) \<le> length types"
    using rem unfolding k_def by linarith
  then have "min (nat (n mod k)) (length types) = nat (n mod k)"
    by simp
  moreover have "int (nat (n div k) * length types + nat (n mod k)) = n"
    using per rem(1) by (simp add: k_def[symmetric] mult.commute)
  then have "nat (n div k) * length types + nat (n mod k) = nat n" by linarith
  ultimately have "length (questions st') = length (questions st) + nat n"
    using l by simp
  with s show ?thesis by (auto simp: k_def)
next
  case False
  define k where "k = int (length types)"
  have kpos: "0 < k" using assms(2) by (simp add: k_def)
  have per: "n div k < 0" using False kpos by (simp add: div_neg_pos_less0)
  have rem: "0 \<le> n mod k" using kpos by simp
  from types_loop_negative[OF per rem, of ext all_docs types st] False
  show ?thesis by (simp add: k_def)
qed

text \<open>
  Claim C8, as the code has it. Take a request with at least one question type whose
  index exists: the path is there, the index loads, and the retriever finds at least one
  chunk for the first topic query. Then the handler returns a list of questions, of length
  \<open>num_questions\<close> when that is not negative and empty when it is negative. Every pass
  of the inner loop over a non-empty pool appends exactly one question: the one parsed from
  the model's reply, or else the templated fallback for that slot. A question is taken
  from the reply only when the reply has no "Error:", has a "Question:" section, gives a
  question text not produced before, and, for a multiple-choice slot, exactly four
  options. Whenever the reply carries "Error:", lacks the "Question:" section, repeats a
  question text already produced, lacks the "Answer:" section, or, in a multiple-choice
  slot, lacks the "Options:" section or does not give exactly four options, the parse
  yields nothing and the slot gets the fallback. The last part says exactly when the
  parse yields a question, and which: the one read off the sections of the reply.
\<close>

theorem generate_questions_count:
  assumes types: "question_types request \<noteq> []"
      and path: "path_exists ext (''vectorstores/'' @ pdf_id request)"
      and load: "load_local ext (''vectorstores/'' @ pdf_id request) = Inr retriever"
      and pool: "retriever ''main concepts and principles'' \<noteq> []"
  shows "(\<exists>qs. generate_questions ext now subscriptions request = Inr qs
            \<and> length qs = nat (num_questions request))
       \<and> (all_docs \<noteq> [] \<longrightarrow>
            (\<exists>st'. generate_slot ext all_docs q_type i st = Inr st'
               \<and> questions st' =
                   questions st @
                   [case parse_question q_type
                           (generate_text (text_generation ext (n_calls st))
                              (slot_prompt q_type (slot_context all_docs i st)
                                 (choose_subject (used_subjects st) i
                                    (slot_context all_docs i st)) i))
                           (used_questions st) of
                      (Some p, used1) \<Rightarrow> p
                    | (None, used1) \<Rightarrow>
                        fst (fallback_question q_type
                               (choose_subject (used_subjects st) i (slot_context all_docs i st))
                               i (length (questions st)) used1)]))
       \<and> (fst (parse_question q_type result used) = Some p \<longrightarrow>
            \<not> py_in ''Error:'' result \<and> 2 \<le> length (split ''Question:'' result)
            \<and> question p \<notin> used
            \<and> (q_type = ''multiple_choice'' \<longrightarrow>
                 (\<exists>opts. options p = Some opts \<and> length opts = 4)))
       \<and> (py_in ''Error:'' result
           \<or> length (split ''Question:'' result) < 2
           \<or> strip (piece 0 (split (if q_type = ''multiple_choice'' then ''Options:''
                                       else ''Answer:'')
                                  (piece 1 (split ''Question:'' result)))) \<in> used
           \<or> \<not> py_in ''Answer:'' result
           \<or> (q_type = ''multiple_choice''
                \<and> (\<not> py_in ''Options:'' result
                     \<or> length (parse_options (strip (piece 0 (split ''Answer:''
                           (piece 1 (split ''Options:'' result)))))) \<noteq> 4))
          \<longrightarrow> fst (parse_question q_type result used) = None)
       \<and> (fst (parse_question q_type result used) = Some p \<longleftrightarrow>
            \<not> py_in ''Error:'' result
          \<and> 2 \<le> length (split ''Question:'' result)
          \<and> question p \<notin> used
          \<and> py_in ''Answer:'' result
          \<and> (q_type = ''multiple_choice'' \<longrightarrow>
               py_in ''Options:'' result
               \<and> length (parse_options (strip (piece 0 (split ''Answer:''
                     (piece 1 (split ''Options:'' result)))))) = 4)
          \<and> p = \<lparr>question =
                     strip (piece 0 (split (if q_type = ''multiple_choice'' then ''Options:''
                                            else ''Answer:'')
                                       (piece 1 (split ''Question:'' result)))),
                   answer = strip (piece 1 (split ''Answer:'' result)),
                   question_type = q_type,
                   options = (if q_type = ''multiple_choice''
                              then Some (parse_options (strip (piece 0 (split ''Answer:''
                                     (piece 1 (split ''Options:'' result))))))
                              else None)\<rparr>)"
proof (intro conjI)
  have lim: "check_question_generation_limits subscriptions now"
    by (simp add: check_question_generation_limits_def split: option.splits)
  have docs: "gather_docs retriever (num_questions request) \<noteq> []"
    using pool by (rule gather_docs_nonempty)
  define st0 :: GenState where
    "st0 = \<lparr>questions = [], used_subjects = {}, used_questions = {}, n_calls = 0\<rparr>"
  from types_loop_count[OF docs types, of ext "num_questions request" st0] obtain st' where
    s: "types_loop ext (gather_docs retriever (num_questions request))
          (num_questions request div int (length (question_types request)))
          (num_questions request mod int (length (question_types request)))
          (question_types request) st0 = Inr st'"
    and l: "length (questions st') = nat (num_questions request)"
    by (auto simp: st0_def)
  have "generate_questions ext now subscriptions request = Inr (questions st')"
    using lim types path load s
    by (simp add: generate_questions_def Let_def st0_def)
  with l show "\<exists>qs. generate_questions ext now subscriptions request = Inr qs
            \<and> length qs = nat (num_questions request)"
    by blast
next
  show "all_docs \<noteq> [] \<longrightarrow>
          (\<exists>st'. generate_slot ext all_docs q_type i st = Inr st'
               \<and> questions st' =
                   questions st @
                   [case parse_question q_type
                           (generate_text (text_generation ext (n_calls st))
                              (slot_prompt q_type (slot_context all_docs i st)
                                 (choose_subject (used_subjects st) i
                                    (slot_context all_docs i st)) i))
                           (used_questions st) of
                      (Some p, used1) \<Rightarrow> p
                    | (None, used1) \<Rightarrow>
                        fst (fallback_question q_type
                               (choose_subject (used_subjects st) i (slot_context all_docs i st))
                               i (length (questions st)) used1)])"
    using generate_slot_appends[of all_docs ext q_type i st] by blast
next
  show "fst (parse_question q_type result used) = Some p \<longrightarrow>
          \<not> py_in ''Error:'' result \<and> 2 \<le> length (split ''Question:'' result)
          \<and> question p \<notin> used
          \<and> (q_type = ''multiple_choice'' \<longrightarrow>
               (\<exists>opts. options p = Some opts \<and> length opts = 4))"
    using parse_question_Some[of q_type result used p] by blast
next
  show "(py_in ''Error:'' result
        \<or> length (split ''Question:'' result) < 2
        \<or> strip (piece 0 (split (if q_type = ''multiple_choice'' then ''Options:''
                                    else ''Answer:'')
                               (piece 1 (split ''Question:'' result)))) \<in> used
        \<or> \<not> py_in ''Answer:'' result
        \<or> (q_type = ''multiple_choice''
             \<and> (\<not> py_in ''Options:'' result
                  \<or> length (parse_options (strip (piece 0 (split ''Answer:''
                        (piece 1 (split ''Options:'' result)))))) \<noteq> 4))
       \<longrightarrow> fst (parse_question q_type result used) = None)"
    using parse_question_None[of result q_type used] by blast
next
  show "(fst (parse_question q_type result used) = Some p \<longleftrightarrow>
         \<not> py_in ''Error:'' result
       \<and> 2 \<le> length (split ''Question:'' result)
       \<and> question p \<notin> used
       \<and> py_in ''Answer:'' result
       \<and> (q_type = ''multiple_choice'' \<longrightarrow>
            py_in ''Options:'' result
            \<and> length (parse_options (strip (piece 0 (split ''Answer:''
                  (piece 1 (split ''Options:'' result)))))) = 4)
       \<and> p = \<lparr>question =
                  strip (piece 0 (split (if q_type = ''multiple_choice'' then ''Options:''
                                         else ''Answer:'')
                                    (piece 1 (split ''Question:'' result)))),
                answer = strip (piece 1 (split ''Answer:'' result)),
                question_type = q_type,
                options = (if q_type = ''multiple_choice''
                           then Some (parse_options (strip (piece 0 (split ''Answer:''
                                  (piece 1 (split ''Options:'' result))))))
                           else None)\<rparr>)"
    by (rule parse_question_iff)
qed


text \<open>
  The sample index holds one chunk; the sample model answers its first call with a
  well-formed multiple-choice question, its second with a text without options, and fails
  from then on. A request for five questions of two types gets five. A multiple-choice
  reply with four options and no "Answer:" section is not parsed.
\<close>

theorem generate_questions_count_witness:
  "question_types (sample_question_request 5) \<noteq> []
   \<and> path_exists sample_ext (''vectorstores/'' @ pdf_id (sample_question_request 5))
   \<and> (\<exists>qs. generate_questions sample_ext 0 [] (sample_question_request 5) = Inr qs
          \<and> length qs = 5)
   \<and> fst (parse_question ''multiple_choice''
            (''Question: Q?\<newline>Options:\<newline>A) a\<newline>B) b\<newline>'' @
             ''C) c\<newline>D) d'') {}) = None"
  using generate_questions_count [where request = "sample_question_request 5"
      and ext = sample_ext and retriever = "\<lambda>q. [''Alan Turing proposed machines.'']"
      and now = 0 and subscriptions = "[]" and q_type = "''multiple_choice''"
      and result = "''Question: Q?\<newline>Options:\<newline>A) a\<newline>B) b\<newline>'' @
             ''C) c\<newline>D) d''" and used = "{}"]
  by (simp add: sample_ext_def sample_question_request_def startswith_def)

text \<open>
  The claim as the specification states it fails on a negative count: the sample index
  exists, the request has two question types and asks for -1 questions, and the handler
  returns the empty list, which does not hold -1 questions.
\<close>

theorem generate_questions_negative_count:
  "question_types (sample_question_request (- 1)) \<noteq> []
   \<and> path_exists sample_ext (''vectorstores/'' @ pdf_id (sample_question_request (- 1)))
   \<and> num_questions (sample_question_request (- 1)) = - 1
   \<and> generate_questions sample_ext 0 [] (sample_question_request (- 1)) = Inr []"
proof -
  have g: "gather_docs (\<lambda>q. [''Alan Turing proposed machines.'']) (- 1) =
             [''Alan Turing proposed machines.'']"
    by (simp add: gather_docs_def query_topics_def Let_def)
  show ?thesis
    by (simp add: generate_questions_def check_question_generation_limits_def sample_ext_def
        sample_question_request_def g Let_def)
qed

end
